theory Spec2Isabelle
  imports Complex_Main "HOL-Library.Word"
begin

unbundle bit_operations_syntax

section \<open>Values of the Python program\<close>

text \<open>
  The program is Python 2: \<open>str\<close> is a byte string. Text (host names, file names, log
  messages) is a \<open>string\<close>; binary data (packed addresses, cookies, DER) is a list of
  bytes. An address tuple is what the socket module hands out: \<open>(host, port)\<close> for
  IPv4 and \<open>(host, port, flowinfo, scope_id)\<close> for IPv6.
\<close>

type_synonym bytes = "8 word list"

datatype addr_tuple =
    Addr2 string int
  | Addr4 string int int int

text \<open>
  \<open>openssl_error()(ssl_error, errqueue, result, func, args)\<close>, the exception that
  \<open>openssl.raise_ssl_error\<close> raises. The function object and its arguments only serve
  the log and are left out.
\<close>

record openssl_error =
  ssl_error :: int
  errqueue :: "(int \<times> string) list"
  result :: int

text \<open>
  Modelled from the spec: module \<open>err\<close> is not among the sources. The spec (section 7)
  names the kinds of error it raises; \<open>ERR_NO_CERTS\<close> is NoTrustAnchors,
  \<open>ERR_NO_CIPHER\<close> is NoCipher, \<open>ERR_HANDSHAKE_TIMEOUT\<close> is HandshakeTimeout and
  \<open>ERR_PORT_UNREACHABLE\<close> is PortUnreachable. These four are the codes that
  \<open>sslconnection.py\<close> imports from it.
\<close>

datatype err_code =
    ERR_NO_CERTS
  | ERR_NO_CIPHER
  | ERR_HANDSHAKE_TIMEOUT
  | ERR_PORT_UNREACHABLE

datatype exn =
    OpenSSLError openssl_error
  | SSLError err_code "openssl_error option"
  | NameError string
  | AttributeError string
  | AssertionError
  | InvalidSocketError string
  | SocketTimeout
  | SocketError "int option"
  | ValueError string
  | OverflowError
  | PyException string

text \<open>
  Modelled from the spec: \<open>err.raise_ssl_error(code, nested)\<close> raises the SSL error of
  kind \<open>code\<close>, with the crypto error that caused it attached (section 7).
\<close>

definition raise_ssl_error :: "err_code \<Rightarrow> openssl_error option \<Rightarrow> exn" where
  "raise_ssl_error code nested = SSLError code nested"

text \<open>
  Modelled from the spec: the integer constants of module \<open>err\<close> that the code compares
  with what the crypto library reports: WANT_READ and the syscall-level failure of
  \<open>SSL_get_error\<close>, and the cookie mismatch of the error queue. The numbers are those
  of the OpenSSL 1.0 headers.
\<close>

definition SSL_ERROR_NONE :: int where "SSL_ERROR_NONE = 0"
definition SSL_ERROR_WANT_READ :: int where "SSL_ERROR_WANT_READ = 2"
definition SSL_ERROR_SYSCALL :: int where "SSL_ERROR_SYSCALL = 5"
definition ERR_COOKIE_MISMATCH :: int where "ERR_COOKIE_MISMATCH = 0x1408A134"

definition PROTOCOL_DTLSv1 :: int where "PROTOCOL_DTLSv1 = 256"
definition CERT_NONE :: int where "CERT_NONE = 0"
definition CERT_OPTIONAL :: int where "CERT_OPTIONAL = 1"
definition CERT_REQUIRED :: int where "CERT_REQUIRED = 2"

text \<open>Truth value of an optional string: \<open>None\<close> and the empty string are false.\<close>

definition truthy :: "string option \<Rightarrow> bool" where
  "truthy s = (case s of None \<Rightarrow> False | Some v \<Rightarrow> v \<noteq> [])"

section \<open>Module openssl: socket address conversions\<close>

text \<open>
  What the code takes from the Python runtime and the operating system, none of it code
  of the repository: the address families of module \<open>socket\<close>, the byte order of the
  machine, the functions \<open>socket.inet_ntop\<close> and \<open>socket.inet_pton\<close> (absent on some
  platforms, hence optional, as \<open>getattr(socket, "inet_ntop", None)\<close> has it), the
  Windows functions of \<open>ws2_32\<close>, \<open>socket.inet_ntoa\<close> and \<open>socket.inet_aton\<close>,
  \<open>errno.EWOULDBLOCK\<close>, HMAC with the default digest MD5 (128 bits), \<open>str\<close> of an address
  tuple, and the 16 bytes \<open>urandom(16)\<close> returned when class \<open>SSLConnection\<close> was
  created (\<open>_rnd_key\<close>).
\<close>

record pyenv =
  AF_INET :: int
  AF_INET6 :: int
  little_endian :: bool
  py_inet_ntop :: "(int \<Rightarrow> bytes \<Rightarrow> exn + string) option"
  py_inet_pton :: "(int \<Rightarrow> string \<Rightarrow> exn + bytes) option"
  wsa_inet_ntop :: "(int \<Rightarrow> 32 word list \<Rightarrow> string) option"
  wsa_inet_pton :: "(int \<Rightarrow> string \<Rightarrow> int \<times> 32 word list) option"
  socket_inet_ntoa :: "bytes \<Rightarrow> exn + string"
  socket_inet_aton :: "string \<Rightarrow> exn + bytes"
  EWOULDBLOCK :: int
  hmac_md5 :: "bytes \<Rightarrow> string \<Rightarrow> 128 word"
  py_str :: "addr_tuple \<Rightarrow> string"
  rnd_key :: bytes

text \<open>
  \<open>sockaddr_u\<close> is a ctypes union of \<open>sockaddr_storage\<close>, \<open>sockaddr_in\<close> and
  \<open>sockaddr_in6\<close>: the members share storage. The record has one field for each
  storage cell the code touches: the family at offset 0 (\<open>ss.ss_family\<close>, a
  \<open>c_short\<close>), the port at offset 2 (\<open>s4.sin_port\<close> and \<open>s6.sin6_port\<close>), the word
  at offset 4 (\<open>s4.sin_addr[0]\<close> and \<open>s6.sin6_flowinfo\<close>), the four words at offset 8
  (\<open>s6.sin6_addr\<close>) and the word at offset 24 (\<open>s6.sin6_scope_id\<close>).
\<close>

record sockaddr_u =
  ss_family :: "16 word"
  sin_port :: "16 word"
  sin_addr_flowinfo :: "32 word"
  sin6_addr :: "32 word list"
  sin6_scope_id :: "32 word"

definition sockaddr_u_new :: sockaddr_u where
  "sockaddr_u_new =
     \<lparr>ss_family = 0, sin_port = 0, sin_addr_flowinfo = 0,
      sin6_addr = [0, 0, 0, 0], sin6_scope_id = 0\<rparr>"

text \<open>The bytes of a native \<open>unsigned int\<close>, as \<open>array.array('I', ...)\<close> packs them.\<close>

definition le32 :: "8 word \<Rightarrow> 8 word \<Rightarrow> 8 word \<Rightarrow> 8 word \<Rightarrow> 32 word" where
  "le32 b0 b1 b2 b3 =
     ucast b0 OR push_bit 8 (ucast b1) OR push_bit 16 (ucast b2) OR push_bit 24 (ucast b3)"

definition byte_at :: "nat \<Rightarrow> 32 word \<Rightarrow> 8 word" where
  "byte_at i w = ucast (drop_bit (8 * i) w)"

definition native32 :: "pyenv \<Rightarrow> 8 word \<Rightarrow> 8 word \<Rightarrow> 8 word \<Rightarrow> 8 word \<Rightarrow> 32 word" where
  "native32 pf b0 b1 b2 b3 = (if little_endian pf then le32 b0 b1 b2 b3 else le32 b3 b2 b1 b0)"

definition native_bytes :: "pyenv \<Rightarrow> 32 word \<Rightarrow> bytes" where
  "native_bytes pf w =
     (if little_endian pf then [byte_at 0 w, byte_at 1 w, byte_at 2 w, byte_at 3 w]
      else [byte_at 3 w, byte_at 2 w, byte_at 1 w, byte_at 0 w])"

text \<open>
  \<open>array.array('I', s)\<close> for a string \<open>s\<close>: a \<open>ValueError\<close> when the length is not a
  multiple of the item size.
\<close>

fun array_I_fromstring :: "pyenv \<Rightarrow> bytes \<Rightarrow> exn + 32 word list" where
  "array_I_fromstring pf [] = Inr []"
| "array_I_fromstring pf (b0 # b1 # b2 # b3 # bs) =
     (case array_I_fromstring pf bs of
        Inl e \<Rightarrow> Inl e
      | Inr ws \<Rightarrow> Inr (native32 pf b0 b1 b2 b3 # ws))"
| "array_I_fromstring pf bs = Inl (ValueError ''string length not a multiple of item size'')"

definition array_I_tostring :: "pyenv \<Rightarrow> 32 word list \<Rightarrow> bytes" where
  "array_I_tostring pf ws = concat (map (native_bytes pf) ws)"

text \<open>Slice assignment to a ctypes array of \<open>n\<close> items: the sizes must agree.\<close>

definition ctypes_assign :: "nat \<Rightarrow> 32 word list \<Rightarrow> exn + 32 word list" where
  "ctypes_assign n ws =
     (if length ws = n then Inr ws else Inl (ValueError ''Can only assign sequence of same size''))"

definition inet_ntop :: "pyenv \<Rightarrow> int \<Rightarrow> 32 word list \<Rightarrow> exn + string" where
  "inet_ntop pf address_family packed_ip =
     (case py_inet_ntop pf of
        Some ntop \<Rightarrow> ntop address_family (array_I_tostring pf packed_ip)
      | None \<Rightarrow>
          (case wsa_inet_ntop pf of
             Some wsa \<Rightarrow>
               (let string_buf = wsa address_family packed_ip
                in if string_buf = [] then Inl (ValueError ''wsa_inet_ntop failed'')
                   else Inr string_buf)
           | None \<Rightarrow>
               if address_family = AF_INET6 pf
               then Inl (ValueError ''Platform does not support IPv6'')
               else socket_inet_ntoa pf (array_I_tostring pf packed_ip)))"

definition inet_pton :: "pyenv \<Rightarrow> int \<Rightarrow> string \<Rightarrow> exn + 32 word list" where
  "inet_pton pf address_family string_ip =
     (let n = (if address_family = AF_INET6 pf then 4 else 1)
      in case py_inet_pton pf of
           Some pton \<Rightarrow>
             (case pton address_family string_ip of
                Inl e \<Rightarrow> Inl e
              | Inr ret_string \<Rightarrow>
                  (case array_I_fromstring pf ret_string of
                     Inl e \<Rightarrow> Inl e
                   | Inr ws \<Rightarrow> ctypes_assign n ws))
         | None \<Rightarrow>
             (case wsa_inet_pton pf of
                Some wsa \<Rightarrow>
                  (case wsa address_family string_ip of
                     (rc, ret_packed_ip) \<Rightarrow>
                       if rc \<noteq> 1 then Inl (ValueError ''wsa_inet_pton failed'')
                       else Inr ret_packed_ip)
              | None \<Rightarrow>
                  if address_family = AF_INET6 pf
                  then Inl (ValueError ''Platform does not support IPv6'')
                  else (case socket_inet_aton pf string_ip of
                          Inl e \<Rightarrow> Inl e
                        | Inr ret_string \<Rightarrow>
                            (case array_I_fromstring pf ret_string of
                               Inl e \<Rightarrow> Inl e
                             | Inr ws \<Rightarrow> ctypes_assign n ws))))"

text \<open>
  Byte order conversions of module \<open>socket\<close> (CPython 2.7): \<open>htons\<close> and \<open>ntohs\<close> take a
  C \<open>int\<close>, refuse a negative one and keep the low 16 bits; \<open>htonl\<close> and \<open>ntohl\<close> refuse
  a negative value and one of more than 32 bits.
\<close>

definition swap16 :: "16 word \<Rightarrow> 16 word" where
  "swap16 w = push_bit 8 w OR drop_bit 8 w"

definition swap32 :: "32 word \<Rightarrow> 32 word" where
  "swap32 w = le32 (byte_at 3 w) (byte_at 2 w) (byte_at 1 w) (byte_at 0 w)"

definition htons :: "pyenv \<Rightarrow> int \<Rightarrow> exn + int" where
  "htons pf x =
     (if x < 0 \<or> 2 ^ 31 \<le> x then Inl OverflowError
      else Inr (uint (if little_endian pf then swap16 (word_of_int x) else word_of_int x)))"

definition ntohs :: "pyenv \<Rightarrow> int \<Rightarrow> exn + int" where
  "ntohs pf x = htons pf x"

definition htonl :: "pyenv \<Rightarrow> int \<Rightarrow> exn + int" where
  "htonl pf x =
     (if x < 0 \<or> 2 ^ 32 \<le> x then Inl OverflowError
      else Inr (uint (if little_endian pf then swap32 (word_of_int x) else word_of_int x)))"

definition ntohl :: "pyenv \<Rightarrow> int \<Rightarrow> exn + int" where
  "ntohl pf x = htonl pf x"

text \<open>
  \<open>addr_tuple_from_sockaddr_u\<close>: the members of the tuple are evaluated from left to
  right, so the first conversion that raises decides the exception. Reading a
  \<open>c_short\<close> gives a signed value, reading a \<open>c_ushort\<close> or \<open>c_uint\<close> an unsigned one.
\<close>

definition addr_tuple_from_sockaddr_u :: "pyenv \<Rightarrow> sockaddr_u \<Rightarrow> exn + addr_tuple" where
  "addr_tuple_from_sockaddr_u pf su =
     (if sint (ss_family su) = AF_INET6 pf
      then (case inet_ntop pf (AF_INET6 pf) (sin6_addr su) of
              Inl e \<Rightarrow> Inl e
            | Inr host \<Rightarrow>
                (case ntohs pf (uint (sin_port su)) of
                   Inl e \<Rightarrow> Inl e
                 | Inr port \<Rightarrow>
                     (case ntohl pf (uint (sin_addr_flowinfo su)) of
                        Inl e \<Rightarrow> Inl e
                      | Inr flowinfo \<Rightarrow>
                          (case ntohl pf (uint (sin6_scope_id su)) of
                             Inl e \<Rightarrow> Inl e
                           | Inr scope_id \<Rightarrow> Inr (Addr4 host port flowinfo scope_id)))))
      else if sint (ss_family su) \<noteq> AF_INET pf then Inl AssertionError
      else (case inet_ntop pf (AF_INET pf) [sin_addr_flowinfo su] of
              Inl e \<Rightarrow> Inl e
            | Inr host \<Rightarrow>
                (case ntohs pf (uint (sin_port su)) of
                   Inl e \<Rightarrow> Inl e
                 | Inr port \<Rightarrow> Inr (Addr2 host port))))"

text \<open>
  \<open>sockaddr_u_from_addr_tuple\<close>: a tuple of more than two members is written as
  \<open>sockaddr_in6\<close>, any other as \<open>sockaddr_in\<close>. Storing a Python integer in a ctypes
  field keeps the low bits.
\<close>

definition sockaddr_u_from_addr_tuple :: "pyenv \<Rightarrow> addr_tuple \<Rightarrow> exn + sockaddr_u" where
  "sockaddr_u_from_addr_tuple pf address =
     (case address of
        Addr4 host port flowinfo scope_id \<Rightarrow>
          (let su = sockaddr_u_new\<lparr>ss_family := word_of_int (AF_INET6 pf)\<rparr>
           in case inet_pton pf (AF_INET6 pf) host of
                Inl e \<Rightarrow> Inl e
              | Inr packed \<Rightarrow>
                  (case ctypes_assign 4 packed of
                     Inl e \<Rightarrow> Inl e
                   | Inr a6 \<Rightarrow>
                       (case htons pf port of
                          Inl e \<Rightarrow> Inl e
                        | Inr p \<Rightarrow>
                            (case htonl pf flowinfo of
                               Inl e \<Rightarrow> Inl e
                             | Inr f \<Rightarrow>
                                 (case htonl pf scope_id of
                                    Inl e \<Rightarrow> Inl e
                                  | Inr sc \<Rightarrow>
                                      Inr (su\<lparr>sin6_addr := a6, sin_port := word_of_int p,
                                              sin_addr_flowinfo := word_of_int f,
                                              sin6_scope_id := word_of_int sc\<rparr>))))))
      | Addr2 host port \<Rightarrow>
          (let su = sockaddr_u_new\<lparr>ss_family := word_of_int (AF_INET pf)\<rparr>
           in case inet_pton pf (AF_INET pf) host of
                Inl e \<Rightarrow> Inl e
              | Inr packed \<Rightarrow>
                  (case packed of
                     [a4] \<Rightarrow>
                       (case htons pf port of
                          Inl e \<Rightarrow> Inl e
                        | Inr p \<Rightarrow>
                            Inr (su\<lparr>sin_addr_flowinfo := a4, sin_port := word_of_int p\<rparr>))
                   | _ \<Rightarrow> Inl (ValueError ''Can only assign sequence of same size''))))"

section \<open>Module openssl: calls into the crypto library\<close>

text \<open>
  The crypto library and the demux are outside the program. Every call the program makes
  is appended to a trace, and what the call answers is read from an oracle at the
  position of the call in the trace: the C return value, what \<open>SSL_get_error\<close> says
  about it, the error queue of the thread as \<open>ERR_get_error\<close> and
  \<open>ERR_error_string_n\<close> would hand it out, and what the call stores through its
  pointer arguments (a socket address, the bytes of a memory BIO, the fields of a
  certificate). Handles (\<open>SSL*\<close>, \<open>SSL_CTX*\<close>, \<open>BIO*\<close>, \<open>X509*\<close>) are numbers, 0 the
  null pointer.
\<close>

datatype libcall =
    Call_BIO_ctrl nat int int "sockaddr_u option"
  | Call_SSL_ctrl nat int int
  | Call_SSL_CTX_ctrl nat int int
  | Call_SSL_do_handshake nat
  | Call_SSL_shutdown nat
  | Call_SSL_set_read_ahead nat int
  | Call_SSL_get_peer_certificate nat
  | Call_BIO_s_mem
  | Call_BIO_new nat
  | Call_i2d_X509_bio nat nat
  | Call_decode_cert nat
  | Call_demux_service nat
  | Call_demux_forward nat

datatype cert_value =
    CertSubject "(string \<times> string) list list"
  | CertText string
  | CertAltNames "(string \<times> string) list"

record cert_info =
  cert_subject :: "(string \<times> string) list list"
  cert_notAfter :: string
  cert_subjectAltName :: "(string \<times> string) list option"

record lib_result =
  ret :: int
  get_error :: int
  thread_errors :: "(int \<times> string) list"
  out_su :: sockaddr_u
  out_bytes :: bytes
  out_cert :: cert_info

text \<open>
  What \<open>UDPDemux.service()\<close> returns: \<open>None\<close> (or any false value), an address tuple,
  or a true value that is not a tuple.
\<close>

datatype service_value = NoPeer | PeerTuple addr_tuple | PeerOther

datatype log_record =
    LogDebug string
  | LogException string exn

record world =
  calls :: "libcall list"
  lib :: "nat \<Rightarrow> lib_result"
  demux_oracle :: "nat \<Rightarrow> exn + service_value"
  log :: "log_record list"

definition lib_call :: "libcall \<Rightarrow> world \<Rightarrow> lib_result \<times> world" where
  "lib_call c w = (lib w (length (calls w)), w\<lparr>calls := calls w @ [c]\<rparr>)"

definition BIO_CTRL_INFO :: int where "BIO_CTRL_INFO = 3"
definition BIO_CTRL_DGRAM_GET_PEER :: int where "BIO_CTRL_DGRAM_GET_PEER = 46"
definition BIO_CTRL_DGRAM_SET_PEER :: int where "BIO_CTRL_DGRAM_SET_PEER = 44"
definition BIO_C_SET_NBIO :: int where "BIO_C_SET_NBIO = 102"
definition DTLS_CTRL_LISTEN :: int where "DTLS_CTRL_LISTEN = 75"

text \<open>
  \<open>openssl.raise_ssl_error(result, func, args, ssl)\<close>: the loop reads the error queue
  until \<open>ERR_get_error\<close> returns 0.
\<close>

fun drain_errqueue :: "(int \<times> string) list \<Rightarrow> (int \<times> string) list" where
  "drain_errqueue [] = []"
| "drain_errqueue ((err, buf) # q) = (if err = 0 then [] else (err, buf) # drain_errqueue q)"

definition openssl_raise_ssl_error :: "int \<Rightarrow> nat option \<Rightarrow> lib_result \<Rightarrow> openssl_error" where
  "openssl_raise_ssl_error res ssl_arg r =
     \<lparr>ssl_error = (case ssl_arg of
                     None \<Rightarrow> SSL_ERROR_NONE
                   | Some h \<Rightarrow> if h = 0 then SSL_ERROR_NONE else get_error r),
      errqueue = drain_errqueue (thread_errors r),
      result = res\<rparr>"

definition errcheck_ord :: "nat option \<Rightarrow> lib_result \<Rightarrow> openssl_error + unit" where
  "errcheck_ord ssl_arg r =
     (if ret r \<le> 0 then Inl (openssl_raise_ssl_error (ret r) ssl_arg r) else Inr ())"

definition errcheck_FuncParam :: "lib_result \<Rightarrow> openssl_error + nat" where
  "errcheck_FuncParam r =
     (if ret r = 0 then Inl (openssl_raise_ssl_error (ret r) None r) else Inr (nat (ret r)))"

definition SSL_do_handshake :: "nat \<Rightarrow> world \<Rightarrow> (openssl_error + unit) \<times> world" where
  "SSL_do_handshake h w =
     (case lib_call (Call_SSL_do_handshake h) w of (r, w') \<Rightarrow> (errcheck_ord (Some h) r, w'))"

definition SSL_shutdown :: "nat \<Rightarrow> world \<Rightarrow> (openssl_error + unit) \<times> world" where
  "SSL_shutdown h w =
     (case lib_call (Call_SSL_shutdown h) w of (r, w') \<Rightarrow> (errcheck_ord (Some h) r, w'))"

definition SSL_get_peer_certificate :: "nat \<Rightarrow> world \<Rightarrow> (openssl_error + nat) \<times> world" where
  "SSL_get_peer_certificate h w =
     (case lib_call (Call_SSL_get_peer_certificate h) w of (r, w') \<Rightarrow> (errcheck_FuncParam r, w'))"

definition BIO_set_nbio :: "nat \<Rightarrow> bool \<Rightarrow> world \<Rightarrow> world" where
  "BIO_set_nbio bio n w = snd (lib_call (Call_BIO_ctrl bio BIO_C_SET_NBIO (if n then 1 else 0) None) w)"

definition BIO_dgram_get_peer :: "pyenv \<Rightarrow> nat \<Rightarrow> world \<Rightarrow> (exn + addr_tuple) \<times> world" where
  "BIO_dgram_get_peer pf bio w =
     (case lib_call (Call_BIO_ctrl bio BIO_CTRL_DGRAM_GET_PEER 0 (Some sockaddr_u_new)) w of
        (r, w') \<Rightarrow> (addr_tuple_from_sockaddr_u pf (out_su r), w'))"

definition BIO_dgram_set_peer :: "pyenv \<Rightarrow> nat \<Rightarrow> addr_tuple \<Rightarrow> world \<Rightarrow> (exn + unit) \<times> world" where
  "BIO_dgram_set_peer pf bio peer_address w =
     (case sockaddr_u_from_addr_tuple pf peer_address of
        Inl e \<Rightarrow> (Inl e, w)
      | Inr su \<Rightarrow>
          (Inr (), snd (lib_call (Call_BIO_ctrl bio BIO_CTRL_DGRAM_SET_PEER 0 (Some su)) w)))"

definition DTLSv1_listen :: "pyenv \<Rightarrow> nat \<Rightarrow> world \<Rightarrow> (exn + addr_tuple) \<times> world" where
  "DTLSv1_listen pf h w =
     (case lib_call (Call_SSL_ctrl h DTLS_CTRL_LISTEN 0) w of
        (r, w') \<Rightarrow>
          (case errcheck_ord (Some h) r of
             Inl err \<Rightarrow> (Inl (OpenSSLError err), w')
           | Inr _ \<Rightarrow> (addr_tuple_from_sockaddr_u pf (out_su r), w')))"

text \<open>
  \<open>i2d_X509\<close>: a memory BIO is made, the certificate is written to it and the bytes of
  the BIO are read (\<open>BIO_get_mem_data\<close>: the first \<open>res_len\<close> bytes).
\<close>

definition BIO_get_mem_data :: "nat \<Rightarrow> world \<Rightarrow> bytes \<times> world" where
  "BIO_get_mem_data bio w =
     (case lib_call (Call_BIO_ctrl bio BIO_CTRL_INFO 0 None) w of
        (r, w') \<Rightarrow> (take (nat (ret r)) (out_bytes r), w'))"

definition i2d_X509 :: "nat \<Rightarrow> world \<Rightarrow> (exn + bytes) \<times> world" where
  "i2d_X509 x509 w =
     (case lib_call Call_BIO_s_mem w of
        (r1, w1) \<Rightarrow>
          (case errcheck_FuncParam r1 of
             Inl err \<Rightarrow> (Inl (OpenSSLError err), w1)
           | Inr meth \<Rightarrow>
               (case lib_call (Call_BIO_new meth) w1 of
                  (r2, w2) \<Rightarrow>
                    (case errcheck_FuncParam r2 of
                       Inl err \<Rightarrow> (Inl (OpenSSLError err), w2)
                     | Inr bio \<Rightarrow>
                         (case lib_call (Call_i2d_X509_bio bio x509) w2 of
                            (r3, w3) \<Rightarrow>
                              (case errcheck_ord None r3 of
                                 Inl err \<Rightarrow> (Inl (OpenSSLError err), w3)
                               | Inr _ \<Rightarrow>
                                   (case BIO_get_mem_data bio w3 of
                                      (der, w4) \<Rightarrow> (Inr der, w4))))))))"

text \<open>
  Modelled from the spec: module \<open>x509\<close> is not among the sources. Its \<open>decode_cert\<close>
  returns a dictionary with at least \<open>subject\<close> (a tuple of RDN tuples) and \<open>notAfter\<close>
  (a printable time), and \<open>subjectAltName\<close> (a list of typed names) when the
  certificate has one (spec section 6.4). The dictionary is an association list.
\<close>

definition decode_cert :: "nat \<Rightarrow> world \<Rightarrow> (string \<times> cert_value) list \<times> world" where
  "decode_cert x509 w =
     (case lib_call (Call_decode_cert x509) w of
        (r, w') \<Rightarrow>
          ([(''subject'', CertSubject (cert_subject (out_cert r))),
            (''notAfter'', CertText (cert_notAfter (out_cert r)))] @
           (case cert_subjectAltName (out_cert r) of
              None \<Rightarrow> []
            | Some names \<Rightarrow> [(''subjectAltName'', CertAltNames names)]),
           w'))"

text \<open>
  Modelled from the spec: module \<open>demux\<close> is not among the sources. \<open>service()\<close> reads
  one datagram from the shared socket and returns the address of a new peer or \<open>None\<close>,
  or raises what the socket raises; \<open>forward()\<close> delivers the datagram just observed
  (spec section 4.2).
\<close>

definition demux_service :: "nat \<Rightarrow> world \<Rightarrow> (exn + service_value) \<times> world" where
  "demux_service d w =
     (demux_oracle w (length (calls w)), w\<lparr>calls := calls w @ [Call_demux_service d]\<rparr>)"

definition demux_forward :: "nat \<Rightarrow> world \<Rightarrow> world" where
  "demux_forward d w = w\<lparr>calls := calls w @ [Call_demux_forward d]\<rparr>"

section \<open>Module sslconnection: the association\<close>

text \<open>
  A socket, as far as the association looks at it: \<open>gettimeout()\<close> is \<open>None\<close> for a
  blocking socket, 0 for a non-blocking one and a positive number otherwise.
\<close>

record pysocket =
  fileno :: int
  sock_type :: int
  gettimeout :: "real option"
  getpeername :: "addr_tuple option"

text \<open>
  The attributes of an \<open>SSLConnection\<close>. \<open>_listening\<close> is set by \<open>_init_server\<close> only and
  \<open>_udp_demux\<close> and \<open>_rsock\<close> are not set by \<open>_init_client\<close>: an attribute that may be
  missing is an option, \<open>None\<close> when the object does not have it. For
  \<open>_listening_peer_address\<close> and \<open>_pending_peer_address\<close>, which the code only reads on
  a listener, \<open>None\<close> is Python's \<open>None\<close>. The BIO wrappers are their handles; two
  wrappers are the same object when the handles are equal.
\<close>

text \<open>
  A \<open>FuncParam\<close> (\<open>SSL\<close>, \<open>SSLCTX\<close>, ...) holds a \<open>c_void_p\<close> object in
  \<open>_as_parameter\<close>; \<open>raw\<close> is the pointer in it. ctypes objects do not define equality,
  so \<open>==\<close> on two \<open>c_void_p\<close> objects holds only when they are the same object: the
  object is represented by its identity.
\<close>

record funcparam =
  as_parameter :: nat
  raw :: nat

record ssl_connection =
  sock :: pysocket
  keyfile :: "string option"
  certfile :: "string option"
  cert_reqs :: int
  ca_certs :: "string option"
  do_handshake_on_connect :: bool
  suppress_ragged_eofs :: bool
  ciphers :: "string option"
  handshake_done :: bool
  udp_demux :: "nat option"
  rsock :: "pysocket option"
  wbio :: nat
  rbio :: nat
  ctx :: funcparam
  ssl :: funcparam
  listening :: "bool option"
  listening_peer_address :: "addr_tuple option"
  pending_peer_address :: "addr_tuple option"

definition check_nbio :: "ssl_connection \<Rightarrow> world \<Rightarrow> (exn + unit) \<times> world" where
  "check_nbio self w =
     (let w1 = BIO_set_nbio (wbio self) (gettimeout (sock self) \<noteq> None) w
      in if wbio self \<noteq> rbio self
         then (case rsock self of
                 None \<Rightarrow> (Inl (AttributeError ''_rsock''), w1)
               | Some rs \<Rightarrow> (Inr (), BIO_set_nbio (rbio self) (gettimeout rs \<noteq> None) w1))
         else (Inr (), w1))"

definition get_socket :: "ssl_connection \<Rightarrow> bool \<Rightarrow> pysocket" where
  "get_socket self inbound =
     (case rsock self of
        Some rs \<Rightarrow> if inbound then rs else sock self
      | None \<Rightarrow> sock self)"

text \<open>Truth value of \<open>gettimeout()\<close>: \<open>None\<close> and 0 are false.\<close>

definition timeout_truthy :: "real option \<Rightarrow> bool" where
  "timeout_truthy t = (case t of None \<Rightarrow> False | Some x \<Rightarrow> x \<noteq> 0)"

definition do_handshake :: "ssl_connection \<Rightarrow> world \<Rightarrow> (exn + unit) \<times> ssl_connection \<times> world" where
  "do_handshake self w =
     (case check_nbio self w of
        (Inl e, w1) \<Rightarrow> (Inl e, self, w1)
      | (Inr _, w1) \<Rightarrow>
          (case SSL_do_handshake (raw (ssl self)) w1 of
             (Inl err, w2) \<Rightarrow>
               if ssl_error err = SSL_ERROR_WANT_READ \<and>
                  timeout_truthy (gettimeout (get_socket self True))
               then (Inl (raise_ssl_error ERR_HANDSHAKE_TIMEOUT (Some err)), self, w2)
               else if ssl_error err = SSL_ERROR_SYSCALL \<and> result err = - 1
               then (Inl (raise_ssl_error ERR_PORT_UNREACHABLE (Some err)), self, w2)
               else (Inl (OpenSSLError err), self, w2)
           | (Inr _, w2) \<Rightarrow> (Inr (), self\<lparr>handshake_done := True\<rparr>, w2)))"

text \<open>
  What \<open>shutdown\<close> returns: \<open>None\<close> on a listener, an \<open>_UnwrappedSocket\<close> for an accepted
  server-side association, the socket itself on the client side.
\<close>

record unwrapped_socket =
  u_wsock :: pysocket
  u_rsock :: "pysocket option"
  u_demux :: nat
  u_ctx :: funcparam
  u_peer_address :: addr_tuple

datatype shutdown_value =
    ShutNone
  | ShutUnwrapped unwrapped_socket
  | ShutSocket pysocket

definition shutdown :: "pyenv \<Rightarrow> ssl_connection \<Rightarrow> world \<Rightarrow> (exn + shutdown_value) \<times> ssl_connection \<times> world" where
  "shutdown pf self w =
     (if listening self \<noteq> None then (Inr ShutNone, self, w)
      else
        (case check_nbio self w of
           (Inl e, w1) \<Rightarrow> (Inl e, self, w1)
         | (Inr _, w1) \<Rightarrow>
             (let (outcome, w3) =
                    (case SSL_shutdown (raw (ssl self)) w1 of
                       (Inl err, w2) \<Rightarrow>
                         if result err = 0
                         then (case SSL_shutdown (raw (ssl self)) w2 of
                                 (Inl err2, w3) \<Rightarrow> (Inl (OpenSSLError err2), w3)
                               | (Inr u, w3) \<Rightarrow> (Inr u, w3))
                         else (Inl (OpenSSLError err), w2)
                     | (Inr u, w2) \<Rightarrow> (Inr u, w2))
              in case outcome of
                   Inl e \<Rightarrow> (Inl e, self, w3)
                 | Inr _ \<Rightarrow>
                     (case udp_demux self of
                        Some d \<Rightarrow>
                          (case BIO_dgram_get_peer pf (wbio self) w3 of
                             (Inl e, w4) \<Rightarrow> (Inl e, self, w4)
                           | (Inr peer, w4) \<Rightarrow>
                               (Inr (ShutUnwrapped
                                      \<lparr>u_wsock = sock self, u_rsock = rsock self, u_demux = d,
                                       u_ctx = ctx self, u_peer_address = peer\<rparr>), self, w4))
                      | None \<Rightarrow> (Inr (ShutSocket (sock self)), self, w3)))))"

text \<open>
  \<open>listen\<close>. The first statement clears the pending peer; then the demux is serviced.
  \<open>socket.timeout\<close> and a socket error with \<open>EWOULDBLOCK\<close> count as no datagram. The
  body is given in three parts, in the order of the source: \<open>listen\<close> up to the test
  \<open>if not peer_address\<close>, \<open>listen_peer\<close> from there to \<open>self._check_nbio()\<close>, and
  \<open>listen_dtls\<close> from \<open>self._listening = True\<close> to the end (the \<open>try\<close> statement with
  its \<open>finally\<close> clause, and the assignment of the pending peer).
\<close>

definition listen_dtls ::
  "pyenv \<Rightarrow> ssl_connection \<Rightarrow> service_value \<Rightarrow> world \<Rightarrow>
   (exn + addr_tuple option) \<times> ssl_connection \<times> world" where
  "listen_dtls pf self1 peer_address w2 =
     (let self2 = self1\<lparr>listening := Some True\<rparr>;
          (r, w3) = DTLSv1_listen pf (raw (ssl self2)) w2;
          self3 = self2\<lparr>listening := Some False, listening_peer_address := None\<rparr>
      in case r of
           Inl (OpenSSLError err) \<Rightarrow>
             if ssl_error err = SSL_ERROR_WANT_READ then (Inr None, self3, w3)
             else if errqueue err \<noteq> [] \<and> fst (hd (errqueue err)) = ERR_COOKIE_MISMATCH
             then (Inr None, self3, w3)
             else (Inl (OpenSSLError err), self3, w3)
         | Inl e \<Rightarrow> (Inl e, self3, w3)
         | Inr dtls_peer_address \<Rightarrow>
             (let pending = (case peer_address of
                               PeerTuple a \<Rightarrow> a
                             | _ \<Rightarrow> dtls_peer_address)
              in (Inr (Some pending), self3\<lparr>pending_peer_address := Some pending\<rparr>, w3)))"

definition listen_peer ::
  "pyenv \<Rightarrow> ssl_connection \<Rightarrow> nat \<Rightarrow> service_value \<Rightarrow> world \<Rightarrow>
   (exn + addr_tuple option) \<times> ssl_connection \<times> world" where
  "listen_peer pf self d peer_address w =
     (case (case peer_address of
              PeerTuple a \<Rightarrow>
                (case BIO_dgram_set_peer pf (wbio self) a w of
                   (Inl e, w1) \<Rightarrow> (Inl e, self, w1)
                 | (Inr u, w1) \<Rightarrow>
                     (Inr u, self\<lparr>listening_peer_address := Some a\<rparr>, demux_forward d w1))
            | _ \<Rightarrow> (Inr (), self, w)) of
        (Inl e, self1, w1) \<Rightarrow> (Inl e, self1, w1)
      | (Inr _, self1, w1) \<Rightarrow>
          (case check_nbio self1 w1 of
             (Inl e, w2) \<Rightarrow> (Inl e, self1, w2)
           | (Inr _, w2) \<Rightarrow> listen_dtls pf self1 peer_address w2))"

definition listen ::
  "pyenv \<Rightarrow> ssl_connection \<Rightarrow> world \<Rightarrow> (exn + addr_tuple option) \<times> ssl_connection \<times> world" where
  "listen pf self0 w =
     (let self = self0\<lparr>pending_peer_address := None\<rparr>
      in case udp_demux self of
           None \<Rightarrow> (Inl (AttributeError ''_udp_demux''), self, w)
         | Some d \<Rightarrow>
             (case demux_service d w of
                (svc, w1) \<Rightarrow>
                  (case (case svc of
                           Inl SocketTimeout \<Rightarrow> Inr NoPeer
                         | Inl (SocketError errno) \<Rightarrow>
                             if errno \<noteq> Some (EWOULDBLOCK pf) then Inl (SocketError errno)
                             else Inr NoPeer
                         | Inl e \<Rightarrow> Inl e
                         | Inr v \<Rightarrow> Inr v) of
                     Inl e \<Rightarrow> (Inl e, self, w1)
                   | Inr NoPeer \<Rightarrow> (Inr None, self, w1)
                   | Inr peer_address \<Rightarrow> listen_peer pf self d peer_address w1)))"

text \<open>What \<open>getpeercert\<close> returns: \<open>None\<close>, a byte string or a dictionary.\<close>

datatype peercert_value =
    CertNone
  | CertDER bytes
  | CertDict "(string \<times> cert_value) list"

definition getpeercert :: "ssl_connection \<Rightarrow> bool \<Rightarrow> world \<Rightarrow> (exn + peercert_value) \<times> world" where
  "getpeercert self binary_form w =
     (case SSL_get_peer_certificate (raw (ssl self)) w of
        (Inl err, w1) \<Rightarrow> (Inr CertNone, w1)
      | (Inr peer_cert, w1) \<Rightarrow>
          if binary_form
          then (case i2d_X509 peer_cert w1 of
                  (Inl e, w2) \<Rightarrow> (Inl e, w2)
                | (Inr der, w2) \<Rightarrow> (Inr (CertDER der), w2))
          else if cert_reqs self = CERT_NONE then (Inr (CertDict []), w1)
          else (case decode_cert peer_cert w1 of (d, w2) \<Rightarrow> (Inr (CertDict d), w2)))"

subsection \<open>Cookies\<close>

text \<open>The 16 bytes of an MD5 digest, most significant first.\<close>

definition digest :: "128 word \<Rightarrow> bytes" where
  "digest h = map (\<lambda>i. ucast (drop_bit (8 * (15 - i)) h)) [0..<16]"

text \<open>
  \<open>_get_cookie\<close>: the two assertions, then the address the cookie is for (the address
  the demux reported, else the peer of the read BIO), then the HMAC of its \<open>str\<close>.
\<close>

definition get_cookie :: "pyenv \<Rightarrow> ssl_connection \<Rightarrow> funcparam \<Rightarrow> world \<Rightarrow> (exn + bytes) \<times> world" where
  "get_cookie pf self ssl_arg w =
     (case listening self of
        None \<Rightarrow> (Inl (AttributeError ''_listening''), w)
      | Some l \<Rightarrow>
          if \<not> l then (Inl AssertionError, w)
          else if as_parameter (ssl self) \<noteq> as_parameter ssl_arg then (Inl AssertionError, w)
          else (case (case listening_peer_address self of
                        Some a \<Rightarrow> (Inr a, w)
                      | None \<Rightarrow> BIO_dgram_get_peer pf (rbio self) w) of
                  (Inl e, w1) \<Rightarrow> (Inl e, w1)
                | (Inr peer_address, w1) \<Rightarrow>
                    (Inr (digest (hmac_md5 pf (rnd_key pf) (py_str pf peer_address))), w1)))"

definition generate_cookie_cb :: "pyenv \<Rightarrow> ssl_connection \<Rightarrow> funcparam \<Rightarrow> world \<Rightarrow> (exn + bytes) \<times> world" where
  "generate_cookie_cb pf self ssl_arg w = get_cookie pf self ssl_arg w"

definition verify_cookie_cb ::
  "pyenv \<Rightarrow> ssl_connection \<Rightarrow> funcparam \<Rightarrow> bytes \<Rightarrow> world \<Rightarrow> (exn + unit) \<times> world" where
  "verify_cookie_cb pf self ssl_arg cookie w =
     (case get_cookie pf self ssl_arg w of
        (Inl e, w1) \<Rightarrow> (Inl e, w1)
      | (Inr c, w1) \<Rightarrow>
          if c \<noteq> cookie then (Inl (PyException ''DTLS cookie mismatch''), w1)
          else (Inr (), w1))"

text \<open>
  The two callbacks that \<open>SSL_CTX_set_cookie_cb\<close> hands to the crypto library.
  \<open>SSL(ssl)\<close> makes a new wrapper object around the pointer; \<open>oid\<close> is the identity of
  its \<open>c_void_p\<close>. The generate callback writes the length to \<open>cookie_len[0]\<close> and
  copies the cookie to the start of the library's buffer; each returns the integer the
  library sees.
\<close>

definition py_generate_cookie_cb ::
  "(funcparam \<Rightarrow> world \<Rightarrow> (exn + bytes) \<times> world) \<Rightarrow> nat \<Rightarrow> nat \<Rightarrow> bytes \<Rightarrow> nat \<Rightarrow> world \<Rightarrow>
   int \<times> bytes \<times> nat \<times> world" where
  "py_generate_cookie_cb generate oid ssl_ptr cookie cookie_len w =
     (case generate \<lparr>as_parameter = oid, raw = ssl_ptr\<rparr> w of
        (Inl e, w1) \<Rightarrow>
          (0, cookie, cookie_len,
           w1\<lparr>log := log w1 @ [LogException ''Cookie generation failed'' e]\<rparr>)
      | (Inr ret_cookie, w1) \<Rightarrow>
          (1, ret_cookie @ drop (length ret_cookie) cookie, length ret_cookie,
           w1\<lparr>log := log w1 @ [LogDebug ''Returning cookie: %s'']\<rparr>))"

definition py_verify_cookie_cb ::
  "(funcparam \<Rightarrow> bytes \<Rightarrow> world \<Rightarrow> (exn + unit) \<times> world) \<Rightarrow> nat \<Rightarrow> nat \<Rightarrow> bytes \<Rightarrow> nat \<Rightarrow> world \<Rightarrow>
   int \<times> world" where
  "py_verify_cookie_cb verify oid ssl_ptr cookie cookie_len w =
     (let w0 = w\<lparr>log := log w @ [LogDebug ''Verifying cookie: %s'']\<rparr>
      in case verify \<lparr>as_parameter = oid, raw = ssl_ptr\<rparr> (take cookie_len cookie) w0 of
           (Inl e, w1) \<Rightarrow> (0, w1\<lparr>log := log w1 @ [LogDebug ''Cookie verification failed'']\<rparr>)
         | (Inr _, w1) \<Rightarrow> (1, w1))"

section \<open>Construction: the argument checks of \<open>SSLConnection.__init__\<close>\<close>

text \<open>
  The arguments of the constructor after the socket. The first statements of
  \<open>__init__\<close> check them and raise before anything is built. The two names
  \<open>ERR_BOTH_KEY_CERT_FILES\<close> and \<open>ERR_BOTH_KEY_CERT_FILES_SVR\<close> are not imported by
  \<open>sslconnection.py\<close> (and \<open>openssl.__all__\<close> does not hold them), so evaluating the
  argument of \<open>raise_ssl_error\<close> in the first two checks raises \<open>NameError\<close>.
\<close>

record init_args =
  arg_keyfile :: "string option"
  arg_certfile :: "string option"
  arg_server_side :: bool
  arg_cert_reqs :: int
  arg_ssl_version :: int
  arg_ca_certs :: "string option"
  arg_do_handshake_on_connect :: bool
  arg_suppress_ragged_eofs :: bool
  arg_ciphers :: "string option"

definition init_check_args :: "init_args \<Rightarrow> exn + init_args" where
  "init_check_args a =
     (if (truthy (arg_keyfile a) \<and> \<not> truthy (arg_certfile a)) \<or>
         (truthy (arg_certfile a) \<and> \<not> truthy (arg_keyfile a))
      then Inl (NameError ''ERR_BOTH_KEY_CERT_FILES'')
      else if arg_server_side a \<and> \<not> truthy (arg_keyfile a)
      then Inl (NameError ''ERR_BOTH_KEY_CERT_FILES_SVR'')
      else if arg_cert_reqs a \<noteq> CERT_NONE \<and> \<not> truthy (arg_ca_certs a)
      then Inl (raise_ssl_error ERR_NO_CERTS None)
      else Inr (if \<not> truthy (arg_ciphers a) then a\<lparr>arg_ciphers := Some ''DEFAULT''\<rparr> else a))"

section \<open>A platform and sample states\<close>

text \<open>
  A platform to run the definitions on: Linux on a little-endian machine (\<open>AF_INET\<close> is
  2, \<open>AF_INET6\<close> is 10, \<open>EWOULDBLOCK\<close> is 11), with the text forms of addresses that
  glibc's \<open>inet_pton\<close> reads and \<open>inet_ntop\<close> prints. \<open>inet_pton\<close> takes a dotted quad
  without leading zeros for IPv4; for IPv6 it takes up to eight groups of one to four
  hexadecimal digits of either case, one \<open>::\<close> standing for one or more groups of
  zeros, and a dotted quad in place of the last two groups. \<open>inet_ntop\<close> prints
  lower-case groups without leading zeros, replaces the first longest run of two or more
  zero groups by \<open>::\<close> and prints the last two groups of an IPv4-compatible or
  IPv4-mapped address as a dotted quad. None of this is code of the repository.
\<close>

fun split_on :: "char \<Rightarrow> string \<Rightarrow> string list" where
  "split_on c [] = [[]]"
| "split_on c (x # xs) =
     (if x = c then [] # split_on c xs
      else (case split_on c xs of
              g # gs \<Rightarrow> (x # g) # gs
            | [] \<Rightarrow> [[x]]))"

definition digit_val :: "char \<Rightarrow> nat option" where
  "digit_val c =
     (let n = (of_char c :: nat)
      in if 48 \<le> n \<and> n \<le> 57 then Some (n - 48) else None)"

definition hex_val :: "char \<Rightarrow> nat option" where
  "hex_val c =
     (let n = (of_char c :: nat)
      in if 48 \<le> n \<and> n \<le> 57 then Some (n - 48)
         else if 97 \<le> n \<and> n \<le> 102 then Some (n - 87)
         else if 65 \<le> n \<and> n \<le> 70 then Some (n - 55)
         else None)"

fun digits_val :: "nat \<Rightarrow> (char \<Rightarrow> nat option) \<Rightarrow> nat \<Rightarrow> string \<Rightarrow> nat option" where
  "digits_val base dv acc [] = Some acc"
| "digits_val base dv acc (c # cs) =
     (case dv c of
        None \<Rightarrow> None
      | Some d \<Rightarrow> digits_val base dv (acc * base + d) cs)"

definition parse_dec_byte :: "string \<Rightarrow> nat option" where
  "parse_dec_byte s =
     (if s = [] \<or> 3 < length s \<or> (1 < length s \<and> hd s = CHR ''0'') then None
      else (case digits_val 10 digit_val 0 s of
              None \<Rightarrow> None
            | Some n \<Rightarrow> if 255 < n then None else Some n))"

definition parse_hex_group :: "string \<Rightarrow> nat option" where
  "parse_hex_group s =
     (if s = [] \<or> 4 < length s then None else digits_val 16 hex_val 0 s)"

fun all_some :: "'a option list \<Rightarrow> 'a list option" where
  "all_some [] = Some []"
| "all_some (None # xs) = None"
| "all_some (Some x # xs) = (case all_some xs of None \<Rightarrow> None | Some ys \<Rightarrow> Some (x # ys))"

definition glibc_inet_pton4 :: "string \<Rightarrow> nat list option" where
  "glibc_inet_pton4 s =
     (let parts = split_on CHR ''.'' s
      in if length parts \<noteq> 4 then None else all_some (map parse_dec_byte parts))"

definition glibc_inet_pton6 :: "string \<Rightarrow> nat list option" where
  "glibc_inet_pton6 s =
     (let g0 = split_on CHR '':'' s;
          lead = (take 2 g0 = [[], []]);
          trail = (2 \<le> length g0 \<and> drop (length g0 - 2) g0 = [[], []])
      in if (hd g0 = [] \<and> \<not> lead) \<or> (last g0 = [] \<and> \<not> trail) then None
         else
           (let g1 = (if lead then tl g0 else g0);
                g2 = (if trail \<and> 2 \<le> length g1 then butlast g1 else g1);
                v4 = (g2 \<noteq> [] \<and> CHR ''.'' \<in> set (last g2));
                hexparts = (if v4 then butlast g2 else g2);
                tailwords =
                  (if v4 then
                     (case glibc_inet_pton4 (last g2) of
                        Some [a, b, c, d] \<Rightarrow> Some [a * 256 + b, c * 256 + d]
                      | _ \<Rightarrow> None)
                   else Some []);
                gaps = length (filter (\<lambda>g. g = []) hexparts);
                front = takeWhile (\<lambda>g. g \<noteq> []) hexparts;
                rear = drop (Suc (length front)) hexparts
            in case tailwords of
                 None \<Rightarrow> None
               | Some tw \<Rightarrow>
                   if gaps = 0 then
                     (case all_some (map parse_hex_group hexparts) of
                        None \<Rightarrow> None
                      | Some ws \<Rightarrow> if length (ws @ tw) = 8 then Some (ws @ tw) else None)
                   else if gaps = 1 then
                     (case (all_some (map parse_hex_group front),
                            all_some (map parse_hex_group rear)) of
                        (Some b, Some a) \<Rightarrow>
                          if length (b @ a @ tw) < 8
                          then Some (b @ replicate (8 - length (b @ a @ tw)) 0 @ a @ tw)
                          else None
                      | _ \<Rightarrow> None)
                   else None))"

definition digit_char :: "nat \<Rightarrow> char" where
  "digit_char n = ''0123456789abcdef'' ! n"

definition dec_byte :: "nat \<Rightarrow> string" where
  "dec_byte n =
     (if n < 10 then [digit_char n]
      else if n < 100 then [digit_char (n div 10), digit_char (n mod 10)]
      else [digit_char (n div 100), digit_char (n div 10 mod 10), digit_char (n mod 10)])"

definition hex_word :: "nat \<Rightarrow> string" where
  "hex_word n =
     (if n < 16 then [digit_char n]
      else if n < 256 then [digit_char (n div 16), digit_char (n mod 16)]
      else if n < 4096 then [digit_char (n div 256), digit_char (n div 16 mod 16), digit_char (n mod 16)]
      else [digit_char (n div 4096 mod 16), digit_char (n div 256 mod 16),
            digit_char (n div 16 mod 16), digit_char (n mod 16)])"

definition glibc_inet_ntop4 :: "nat list \<Rightarrow> string" where
  "glibc_inet_ntop4 bs =
     dec_byte (bs ! 0) @ ''.'' @ dec_byte (bs ! 1) @ ''.'' @ dec_byte (bs ! 2) @ ''.'' @ dec_byte (bs ! 3)"

definition zero_run :: "nat list \<Rightarrow> nat \<Rightarrow> nat" where
  "zero_run ws i = length (takeWhile (\<lambda>x. x = 0) (drop i ws))"

definition best_run :: "nat list \<Rightarrow> nat \<times> nat" where
  "best_run ws =
     (let lens = map (zero_run ws) [0..<8];
          m = fold max lens 0
      in if m < 2 then (0, 0) else (length (takeWhile (\<lambda>l. l \<noteq> m) lens), m))"

fun ntop6_loop :: "nat list \<Rightarrow> nat \<times> nat \<Rightarrow> nat list \<Rightarrow> string" where
  "ntop6_loop ws (base, len) [] = (if len \<noteq> 0 \<and> base + len = 8 then '':'' else [])"
| "ntop6_loop ws (base, len) (i # idx) =
     (if base \<le> i \<and> i < base + len
      then (if i = base then '':'' else []) @ ntop6_loop ws (base, len) idx
      else (if i \<noteq> 0 then '':'' else []) @
           (if i = 6 \<and> base = 0 \<and> (len = 6 \<or> (len = 5 \<and> ws ! 5 = 65535))
            then glibc_inet_ntop4 [ws ! 6 div 256, ws ! 6 mod 256, ws ! 7 div 256, ws ! 7 mod 256]
            else hex_word (ws ! i) @ ntop6_loop ws (base, len) idx))"

definition glibc_inet_ntop6 :: "nat list \<Rightarrow> string" where
  "glibc_inet_ntop6 ws = ntop6_loop ws (best_run ws) [0..<8]"

fun words_of_octets :: "nat list \<Rightarrow> nat list" where
  "words_of_octets (a # b # bs) = (a * 256 + b) # words_of_octets bs"
| "words_of_octets bs = []"

definition octets_of_words :: "nat list \<Rightarrow> nat list" where
  "octets_of_words ws = concat (map (\<lambda>w. [w div 256, w mod 256]) ws)"

definition linux_inet_pton :: "int \<Rightarrow> string \<Rightarrow> exn + bytes" where
  "linux_inet_pton af s =
     (if af = 2 then
        (case glibc_inet_pton4 s of
           None \<Rightarrow> Inl (SocketError None)
         | Some bs \<Rightarrow> Inr (map of_nat bs))
      else if af = 10 then
        (case glibc_inet_pton6 s of
           None \<Rightarrow> Inl (SocketError None)
         | Some ws \<Rightarrow> Inr (map of_nat (octets_of_words ws)))
      else Inl (SocketError (Some 97)))"

definition linux_inet_ntop :: "int \<Rightarrow> bytes \<Rightarrow> exn + string" where
  "linux_inet_ntop af packed =
     (if af = 2 then
        (if length packed = 4 then Inr (glibc_inet_ntop4 (map unat packed))
         else Inl (ValueError ''invalid length of packed IP address string''))
      else if af = 10 then
        (if length packed = 16 then Inr (glibc_inet_ntop6 (words_of_octets (map unat packed)))
         else Inl (ValueError ''invalid length of packed IP address string''))
      else Inl (ValueError ''unknown address family''))"


definition linux_env :: "(bytes \<Rightarrow> string \<Rightarrow> 128 word) \<Rightarrow> (addr_tuple \<Rightarrow> string) \<Rightarrow> bytes \<Rightarrow> pyenv" where
  "linux_env mac str_of key =
     \<lparr>AF_INET = 2, AF_INET6 = 10, little_endian = True,
      py_inet_ntop = Some linux_inet_ntop, py_inet_pton = Some linux_inet_pton,
      wsa_inet_ntop = None, wsa_inet_pton = None,
      socket_inet_ntoa = linux_inet_ntop 2, socket_inet_aton = linux_inet_pton 2,
      EWOULDBLOCK = 11, hmac_md5 = mac, py_str = str_of, rnd_key = key\<rparr>"

text \<open>Decoding what encoding gave: the round trip of section 4.1 of the spec.\<close>

definition addr_roundtrip :: "pyenv \<Rightarrow> addr_tuple \<Rightarrow> exn + addr_tuple" where
  "addr_roundtrip pf a =
     (case sockaddr_u_from_addr_tuple pf a of
        Inl e \<Rightarrow> Inl e
      | Inr su \<Rightarrow> addr_tuple_from_sockaddr_u pf su)"

text \<open>
  The host of a tuple is in presentation form when \<open>inet_ntop\<close> prints it for the
  address that \<open>inet_pton\<close> reads from it.
\<close>

definition addr_family :: "pyenv \<Rightarrow> addr_tuple \<Rightarrow> int" where
  "addr_family pf a = (case a of Addr2 h p \<Rightarrow> AF_INET pf | Addr4 h p f s \<Rightarrow> AF_INET6 pf)"

definition addr_host :: "addr_tuple \<Rightarrow> string" where
  "addr_host a = (case a of Addr2 h p \<Rightarrow> h | Addr4 h p f s \<Rightarrow> h)"

definition presentation_form :: "pyenv \<Rightarrow> addr_tuple \<Rightarrow> bool" where
  "presentation_form pf a =
     (case inet_pton pf (addr_family pf a) (addr_host a) of
        Inl e \<Rightarrow> False
      | Inr packed \<Rightarrow>
          length packed = (case a of Addr2 h p \<Rightarrow> 1 | Addr4 h p f s \<Rightarrow> 4) \<and>
          inet_ntop pf (addr_family pf a) packed = Inr (addr_host a))"

definition fields_in_range :: "addr_tuple \<Rightarrow> bool" where
  "fields_in_range a =
     (case a of
        Addr2 h p \<Rightarrow> 0 \<le> p \<and> p < 65536
      | Addr4 h p f s \<Rightarrow> 0 \<le> p \<and> p < 65536 \<and> 0 \<le> f \<and> f < 2 ^ 32 \<and> 0 \<le> s \<and> s < 2 ^ 32)"

definition families_fit :: "pyenv \<Rightarrow> bool" where
  "families_fit pf =
     (AF_INET pf \<noteq> AF_INET6 pf \<and>
      - (2 ^ 15) \<le> AF_INET pf \<and> AF_INET pf < 2 ^ 15 \<and>
      - (2 ^ 15) \<le> AF_INET6 pf \<and> AF_INET6 pf < 2 ^ 15)"

text \<open>
  Sample states: what a library call answers when nothing else is said, a world with an
  empty trace, a socket with a given timeout, a client-side association, a listener as
  \<open>_init_server\<close> leaves it and an accepted server-side association as \<open>_copy_server\<close>
  leaves it (no \<open>_listening\<close> attribute).
\<close>

definition sample_result :: lib_result where
  "sample_result =
     \<lparr>ret = 1, get_error = 0, thread_errors = [], out_su = sockaddr_u_new, out_bytes = [],
      out_cert = \<lparr>cert_subject = [], cert_notAfter = [], cert_subjectAltName = None\<rparr>\<rparr>"

definition sample_world :: "(nat \<Rightarrow> lib_result) \<Rightarrow> (nat \<Rightarrow> exn + service_value) \<Rightarrow> world" where
  "sample_world answers serviced = \<lparr>calls = [], lib = answers, demux_oracle = serviced, log = []\<rparr>"

definition sample_socket :: "int \<Rightarrow> real option \<Rightarrow> pysocket" where
  "sample_socket fd t = \<lparr>fileno = fd, sock_type = 2, gettimeout = t, getpeername = None\<rparr>"

definition sample_client :: "real option \<Rightarrow> ssl_connection" where
  "sample_client t =
     \<lparr>sock = sample_socket 3 t, keyfile = None, certfile = None, cert_reqs = CERT_NONE,
      ca_certs = None, do_handshake_on_connect = False, suppress_ragged_eofs = True,
      ciphers = Some ''DEFAULT'', handshake_done = False, udp_demux = None, rsock = None,
      wbio = 10, rbio = 10, ctx = \<lparr>as_parameter = 1, raw = 20\<rparr>,
      ssl = \<lparr>as_parameter = 2, raw = 30\<rparr>, listening = None,
      listening_peer_address = None, pending_peer_address = None\<rparr>"

definition sample_listener :: ssl_connection where
  "sample_listener =
     \<lparr>sock = sample_socket 3 None, keyfile = Some ''key.pem'', certfile = Some ''cert.pem'',
      cert_reqs = CERT_NONE, ca_certs = None, do_handshake_on_connect = False,
      suppress_ragged_eofs = True, ciphers = Some ''DEFAULT'', handshake_done = False,
      udp_demux = Some 7, rsock = Some (sample_socket 4 None),
      wbio = 10, rbio = 11, ctx = \<lparr>as_parameter = 1, raw = 20\<rparr>,
      ssl = \<lparr>as_parameter = 2, raw = 30\<rparr>, listening = Some False,
      listening_peer_address = None, pending_peer_address = None\<rparr>"

definition sample_accepted :: ssl_connection where
  "sample_accepted = sample_listener\<lparr>listening := None, wbio := 12, rbio := 13\<rparr>"

definition linux_sample_env :: pyenv where
  "linux_sample_env = linux_env (\<lambda>k m. 0) (\<lambda>a. []) []"

text \<open>
  Two oracles: every call fails with return value \<open>r\<close> and \<open>SSL_get_error\<close> saying
  \<open>e\<close>; and the call at position \<open>k\<close> of the trace returns \<open>r\<close> while every other call
  succeeds.
\<close>

definition failing :: "int \<Rightarrow> int \<Rightarrow> nat \<Rightarrow> lib_result" where
  "failing r e = (\<lambda>k. sample_result\<lparr>ret := r, get_error := e\<rparr>)"

definition answering_at :: "nat \<Rightarrow> int \<Rightarrow> nat \<Rightarrow> lib_result" where
  "answering_at k r = (\<lambda>i. if i = k then sample_result\<lparr>ret := r\<rparr> else sample_result)"

definition sample_listening :: "addr_tuple \<Rightarrow> ssl_connection" where
  "sample_listening a =
     sample_listener\<lparr>listening := Some True, listening_peer_address := Some a\<rparr>"

text \<open>
  Two predicates for the proofs about \<open>listen\<close>: a list of calls without a call of
  \<open>SSL_ctrl\<close>, and the two ways \<open>listen\<close> can end: in \<open>listen_dtls\<close>, entered with
  the pending peer cleared after calls that leave the oracle alone, or before it,
  without a call of \<open>SSL_ctrl\<close>, with the pending peer cleared and no peer returned.
\<close>

definition no_ssl_ctrl :: "libcall list \<Rightarrow> bool" where
  "no_ssl_ctrl cs = (\<forall>c\<in>set cs. case c of Call_SSL_ctrl h k l \<Rightarrow> False | _ \<Rightarrow> True)"

definition listen_outcome ::
  "pyenv \<Rightarrow> ssl_connection \<Rightarrow> world \<Rightarrow> (exn + addr_tuple option) \<Rightarrow> ssl_connection \<Rightarrow> world \<Rightarrow> bool" where
  "listen_outcome pf self w out s' w' =
     ((\<exists>self1 w2 pre v.
         ssl self1 = ssl self \<and> pending_peer_address self1 = None \<and> lib w2 = lib w \<and>
         calls w2 = calls w @ pre \<and> no_ssl_ctrl pre \<and>
         listen_dtls pf self1 v w2 = (out, s', w')) \<or>
      (\<exists>new.
         calls w' = calls w @ new \<and> no_ssl_ctrl new \<and> pending_peer_address s' = None \<and>
         (case out of Inl e \<Rightarrow> True | Inr v \<Rightarrow> v = None)))"

section \<open>Auxiliary facts\<close>

subsection \<open>Bytes and byte order\<close>

lemma byte_at_le32:
  "byte_at 0 (le32 b0 b1 b2 b3) = b0"
  "byte_at 1 (le32 b0 b1 b2 b3) = b1"
  "byte_at 2 (le32 b0 b1 b2 b3) = b2"
  "byte_at 3 (le32 b0 b1 b2 b3) = b3"
  unfolding byte_at_def le32_def
  by (rule bit_word_eqI; auto simp: bit_simps dest: bit_imp_le_length)+

lemma byte_at_le32_Suc: "byte_at (Suc 0) (le32 b0 b1 b2 b3) = b1"
  using byte_at_le32(2) [of b0 b1 b2 b3] by simp

lemma le32_byte_at: "le32 (byte_at 0 w) (byte_at 1 w) (byte_at 2 w) (byte_at 3 w) = w"
proof (rule bit_word_eqI)
  fix n assume "n < LENGTH(32)"
  then have n: "n < 32" by simp
  consider "n < 8" | "8 \<le> n" "n < 16" | "16 \<le> n" "n < 24" | "24 \<le> n" "n < 32"
    using n by linarith
  then show "bit (le32 (byte_at 0 w) (byte_at 1 w) (byte_at 2 w) (byte_at 3 w)) n = bit w n"
    by cases (auto simp add: byte_at_def le32_def bit_simps)
qed

lemma swap16_swap16: "swap16 (swap16 w) = w"
  unfolding swap16_def
  by (rule bit_word_eqI) (auto simp: bit_simps)

lemma swap32_swap32: "swap32 (swap32 w) = w"
  using le32_byte_at [of w] by (simp add: swap32_def byte_at_le32 byte_at_le32_Suc)

lemma uint16_of_int: "0 \<le> p \<Longrightarrow> p < 65536 \<Longrightarrow> uint (word_of_int p :: 16 word) = p"
  by (simp add: uint_word_of_int take_bit_eq_mod)

lemma uint32_of_int: "0 \<le> p \<Longrightarrow> p < 2 ^ 32 \<Longrightarrow> uint (word_of_int p :: 32 word) = p"
  by (simp add: uint_word_of_int take_bit_eq_mod)

lemma sint16_of_int: "- (2 ^ 15) \<le> x \<Longrightarrow> x < 2 ^ 15 \<Longrightarrow> sint (word_of_int x :: 16 word) = x"
  by (simp add: sint_sbintrunc' signed_take_bit_int_eq_self)

lemma htons_ok: "0 \<le> p \<Longrightarrow> p < 65536 \<Longrightarrow> \<exists>q. htons pf p = Inr q"
  by (simp add: htons_def)

lemma htonl_ok: "0 \<le> p \<Longrightarrow> p < 2 ^ 32 \<Longrightarrow> \<exists>q. htonl pf p = Inr q"
  by (simp add: htonl_def)

lemma ntohs_htons:
  assumes "0 \<le> p" "p < 65536" "htons pf p = Inr q"
  shows "ntohs pf (uint (word_of_int q :: 16 word)) = Inr p"
proof -
  have bound: "uint (w :: 16 word) < 2147483648" for w
    using uint_bounded [of w] by simp
  from assms show ?thesis
    by (auto simp: ntohs_def htons_def swap16_swap16 uint16_of_int bound not_le split: if_splits)
qed

lemma ntohl_htonl:
  assumes "0 \<le> p" "p < 2 ^ 32" "htonl pf p = Inr q"
  shows "ntohl pf (uint (word_of_int q :: 32 word)) = Inr p"
proof -
  have bound: "uint (w :: 32 word) < 4294967296" for w
    using uint_bounded [of w] by simp
  from assms show ?thesis
    by (auto simp: ntohl_def htonl_def swap32_swap32 uint32_of_int bound not_le split: if_splits)
qed

text \<open>What \<open>array.array('I', s)\<close> reads from a string, \<open>tostring()\<close> writes back.\<close>

lemma native_bytes_native32: "native_bytes pf (native32 pf b0 b1 b2 b3) = [b0, b1, b2, b3]"
  by (simp add: native_bytes_def native32_def byte_at_le32 byte_at_le32_Suc)

lemma array_I_tostring_fromstring:
  "array_I_fromstring pf bs = Inr ws \<Longrightarrow> array_I_tostring pf ws = bs"
proof (induction pf bs arbitrary: ws rule: array_I_fromstring.induct)
  case (1 pf)
  then show ?case by (simp add: array_I_tostring_def)
next
  case (2 pf b0 b1 b2 b3 bs)
  then show ?case
    by (auto simp: array_I_tostring_def native_bytes_native32 split: sum.splits)
qed simp_all

subsection \<open>The trace of library calls\<close>

lemma no_ssl_ctrl_simps [simp]:
  "no_ssl_ctrl []"
  "no_ssl_ctrl (c # cs) = ((case c of Call_SSL_ctrl h k l \<Rightarrow> False | _ \<Rightarrow> True) \<and> no_ssl_ctrl cs)"
  "no_ssl_ctrl (xs @ ys) = (no_ssl_ctrl xs \<and> no_ssl_ctrl ys)"
  by (auto simp: no_ssl_ctrl_def)

lemma result_openssl_raise_ssl_error:
  "result (openssl_raise_ssl_error res a r) = res"
  by (simp add: openssl_raise_ssl_error_def)

lemma check_nbio_world:
  "check_nbio self w = (r, w1) \<Longrightarrow>
   lib w1 = lib w \<and> demux_oracle w1 = demux_oracle w \<and>
   (\<exists>n. calls w1 = calls w @ n \<and> no_ssl_ctrl n)"
  by (auto simp: check_nbio_def BIO_set_nbio_def lib_call_def Let_def split: if_splits option.splits)

lemma BIO_dgram_set_peer_world:
  "BIO_dgram_set_peer pf b a w = (r, w1) \<Longrightarrow>
   lib w1 = lib w \<and> demux_oracle w1 = demux_oracle w \<and>
   (\<exists>n. calls w1 = calls w @ n \<and> no_ssl_ctrl n)"
  by (auto simp: BIO_dgram_set_peer_def lib_call_def split: sum.splits)

lemma BIO_dgram_get_peer_calls:
  "BIO_dgram_get_peer pf b w = (r, w') \<Longrightarrow>
   calls w' = calls w @ [Call_BIO_ctrl b BIO_CTRL_DGRAM_GET_PEER 0 (Some sockaddr_u_new)]"
  by (auto simp: BIO_dgram_get_peer_def lib_call_def)

lemma SSL_shutdown_eq:
  "SSL_shutdown h w =
     (errcheck_ord (Some h) (lib w (length (calls w))),
      w\<lparr>calls := calls w @ [Call_SSL_shutdown h]\<rparr>)"
  by (simp add: SSL_shutdown_def lib_call_def)

lemma DTLSv1_listen_calls:
  "DTLSv1_listen pf h w = (r, w') \<Longrightarrow>
   w' = w\<lparr>calls := calls w @ [Call_SSL_ctrl h DTLS_CTRL_LISTEN 0]\<rparr>"
  by (auto simp: DTLSv1_listen_def lib_call_def split: sum.splits)

subsection \<open>The ways through \<open>listen\<close>\<close>

lemma listen_dtls_failure:
  assumes "ret (lib w (length (calls w))) \<le> 0"
  shows "listen_dtls pf self v w =
     (let h = raw (ssl self); r = lib w (length (calls w));
          err = openssl_raise_ssl_error (ret r) (Some h) r
      in (if ssl_error err = SSL_ERROR_WANT_READ then Inr None
          else if errqueue err \<noteq> [] \<and> fst (hd (errqueue err)) = ERR_COOKIE_MISMATCH then Inr None
          else Inl (OpenSSLError err),
          self\<lparr>listening := Some False, listening_peer_address := None\<rparr>,
          w\<lparr>calls := calls w @ [Call_SSL_ctrl h DTLS_CTRL_LISTEN 0]\<rparr>))"
  using assms
  by (simp add: listen_dtls_def DTLSv1_listen_def lib_call_def errcheck_ord_def Let_def)

lemma listen_dtls_calls:
  "listen_dtls pf self v w = (out, s', w') \<Longrightarrow>
   calls w' = calls w @ [Call_SSL_ctrl (raw (ssl self)) DTLS_CTRL_LISTEN 0]"
  unfolding listen_dtls_def Let_def
  by (cases "DTLSv1_listen pf (raw (ssl self)) w")
     (auto dest!: DTLSv1_listen_calls split: sum.splits exn.splits if_splits)

lemma listen_dtls_pending:
  "listen_dtls pf self v w = (out, s', w') \<Longrightarrow> pending_peer_address self = None \<Longrightarrow>
   pending_peer_address s' = (case out of Inl e \<Rightarrow> None | Inr x \<Rightarrow> x)"
  unfolding listen_dtls_def Let_def
  by (cases "DTLSv1_listen pf (raw (ssl self)) w")
     (auto split: sum.splits exn.splits if_splits)

lemma listen_tail_outcome:
  assumes t: "(case check_nbio self1 w1 of
                 (Inl e, w2) \<Rightarrow> (Inl e, self1, w2)
               | (Inr u, w2) \<Rightarrow> listen_dtls pf self1 v w2) = (out, s', w')"
    and l: "lib w1 = lib w" and c: "calls w1 = calls w @ pfx" and n: "no_ssl_ctrl pfx"
    and s: "ssl self1 = ssl self" and p: "pending_peer_address self1 = None"
  shows "listen_outcome pf self w out s' w'"
proof -
  obtain r2 w2 where cn: "check_nbio self1 w1 = (r2, w2)" by force
  from check_nbio_world [OF cn] obtain m where
    w2: "lib w2 = lib w1" "calls w2 = calls w1 @ m" "no_ssl_ctrl m" by blast
  show ?thesis
  proof (cases r2)
    case (Inl e)
    with t cn have "w' = w2" "s' = self1" "out = Inl e" by simp_all
    with w2 c n p have "calls w' = calls w @ (pfx @ m) \<and> no_ssl_ctrl (pfx @ m) \<and>
        pending_peer_address s' = None \<and> (case out of Inl e \<Rightarrow> True | Inr v \<Rightarrow> v = None)"
      by simp
    then show ?thesis unfolding listen_outcome_def by blast
  next
    case (Inr u)
    with t cn have "listen_dtls pf self1 v w2 = (out, s', w')" by simp
    moreover have "lib w2 = lib w" using w2 l by simp
    moreover have "calls w2 = calls w @ (pfx @ m)" using w2 c by simp
    moreover have "no_ssl_ctrl (pfx @ m)" using w2 n by simp
    ultimately show ?thesis unfolding listen_outcome_def using s p by blast
  qed
qed

lemma listen_peer_outcome:
  assumes lp: "listen_peer pf self1 d v w1 = (out, s', w')"
    and l: "lib w1 = lib w" and c: "calls w1 = calls w @ pfx" and n: "no_ssl_ctrl pfx"
    and s: "ssl self1 = ssl self" and p: "pending_peer_address self1 = None"
  shows "listen_outcome pf self w out s' w'"
proof (cases v)
  case NoPeer
  from lp have "(case check_nbio self1 w1 of
                 (Inl e, w2) \<Rightarrow> (Inl e, self1, w2)
               | (Inr u, w2) \<Rightarrow> listen_dtls pf self1 NoPeer w2) = (out, s', w')"
    unfolding NoPeer by (simp add: listen_peer_def)
  then show ?thesis by (rule listen_tail_outcome) (rule l c n s p)+
next
  case PeerOther
  from lp have "(case check_nbio self1 w1 of
                 (Inl e, w2) \<Rightarrow> (Inl e, self1, w2)
               | (Inr u, w2) \<Rightarrow> listen_dtls pf self1 PeerOther w2) = (out, s', w')"
    unfolding PeerOther by (simp add: listen_peer_def)
  then show ?thesis by (rule listen_tail_outcome) (rule l c n s p)+
next
  case (PeerTuple a)
  obtain r1 w2 where sp: "BIO_dgram_set_peer pf (wbio self1) a w1 = (r1, w2)" by force
  from BIO_dgram_set_peer_world [OF sp] obtain m where
    w2: "lib w2 = lib w1" "calls w2 = calls w1 @ m" "no_ssl_ctrl m" by blast
  show ?thesis
  proof (cases r1)
    case (Inl e)
    with lp sp have "w' = w2" "s' = self1" "out = Inl e"
      unfolding PeerTuple by (simp_all add: listen_peer_def)
    with w2 c n p have "calls w' = calls w @ (pfx @ m) \<and> no_ssl_ctrl (pfx @ m) \<and>
        pending_peer_address s' = None \<and> (case out of Inl e \<Rightarrow> True | Inr v \<Rightarrow> v = None)"
      by simp
    then show ?thesis unfolding listen_outcome_def by blast
  next
    case (Inr u)
    let ?s1 = "self1\<lparr>listening_peer_address := Some a\<rparr>"
    from Inr lp sp have
      "(case check_nbio ?s1 (demux_forward d w2) of
          (Inl e, w3) \<Rightarrow> (Inl e, ?s1, w3)
        | (Inr u, w3) \<Rightarrow> listen_dtls pf ?s1 (PeerTuple a) w3) = (out, s', w')"
      unfolding PeerTuple by (simp add: listen_peer_def)
    then show ?thesis
    proof (rule listen_tail_outcome)
      show "lib (demux_forward d w2) = lib w" using w2 l by (simp add: demux_forward_def)
      show "calls (demux_forward d w2) = calls w @ (pfx @ m @ [Call_demux_forward d])"
        using w2 c by (simp add: demux_forward_def)
      show "no_ssl_ctrl (pfx @ m @ [Call_demux_forward d])" using w2 n by simp
      show "ssl ?s1 = ssl self" using s by simp
      show "pending_peer_address ?s1 = None" using p by simp
    qed
  qed
qed

lemma listen_outcome_listen:
  assumes "listen pf self w = (out, s', w')"
  shows "listen_outcome pf self w out s' w'"
proof (cases "udp_demux self")
  case None
  with assms have "w' = w" "s' = self\<lparr>pending_peer_address := None\<rparr>"
    "out = Inl (AttributeError ''_udp_demux'')"
    by (simp_all add: listen_def Let_def)
  then show ?thesis unfolding listen_outcome_def by (intro disjI2 exI [of _ "[]"]) simp
next
  case (Some d)
  let ?s = "self\<lparr>pending_peer_address := None\<rparr>"
  let ?w1 = "w\<lparr>calls := calls w @ [Call_demux_service d]\<rparr>"
  have early: "listen_outcome pf self w (Inl e) ?s ?w1" for e
    unfolding listen_outcome_def by (intro disjI2 exI [of _ "[Call_demux_service d]"]) simp
  have nopeer: "listen_outcome pf self w (Inr None) ?s ?w1"
    unfolding listen_outcome_def by (intro disjI2 exI [of _ "[Call_demux_service d]"]) simp
  have peer: "listen_outcome pf self w out s' w'"
    if "listen_peer pf ?s d v ?w1 = (out, s', w')" for v
    using that by (rule listen_peer_outcome [where pfx = "[Call_demux_service d]"]) simp_all
  from assms Some show ?thesis
    apply (simp add: listen_def Let_def demux_service_def)
    apply (auto split: sum.splits exn.splits service_value.splits if_splits
        intro: early nopeer peer)
    done
qed

subsection \<open>Cookies\<close>

text \<open>
  \<open>_get_cookie\<close> computes the digest of \<open>HMAC(_rnd_key, str(peer_address))\<close> when it is
  given the very wrapper object that the association holds, and raises for any other
  wrapper object, also one around the same pointer: for every cookie the verify
  trampoline then returns 0, and the generate trampoline returns 0 and writes nothing.
\<close>

lemma get_cookie_own_wrapper:
  assumes "listening self = Some True" "as_parameter ssl_arg = as_parameter (ssl self)"
    and "(case listening_peer_address self of
            Some a \<Rightarrow> (Inr a, w)
          | None \<Rightarrow> BIO_dgram_get_peer pf (rbio self) w) = (Inr a, w1)"
  shows "get_cookie pf self ssl_arg w =
           (Inr (digest (hmac_md5 pf (rnd_key pf) (py_str pf a))), w1)"
  using assms by (simp add: get_cookie_def)

lemma get_cookie_other_wrapper:
  assumes "as_parameter ssl_arg \<noteq> as_parameter (ssl self)"
  shows "\<exists>e. get_cookie pf self ssl_arg w = (Inl e, w)"
  using assms by (auto simp add: get_cookie_def split: option.splits)

lemma py_verify_cookie_cb_other_wrapper:
  assumes "oid \<noteq> as_parameter (ssl self)"
  shows "py_verify_cookie_cb (verify_cookie_cb pf self) oid p cookie n w =
           (0, w\<lparr>log := log w @ [LogDebug ''Verifying cookie: %s'',
                                  LogDebug ''Cookie verification failed'']\<rparr>)"
proof -
  let ?w0 = "w\<lparr>log := log w @ [LogDebug ''Verifying cookie: %s'']\<rparr>"
  from assms have "as_parameter \<lparr>as_parameter = oid, raw = p\<rparr> \<noteq> as_parameter (ssl self)"
    by simp
  from get_cookie_other_wrapper [OF this, of pf ?w0]
  obtain e where "get_cookie pf self \<lparr>as_parameter = oid, raw = p\<rparr> ?w0 = (Inl e, ?w0)"
    by blast
  then show ?thesis
    by (simp add: py_verify_cookie_cb_def verify_cookie_cb_def Let_def)
qed

lemma py_generate_cookie_cb_other_wrapper:
  assumes "oid \<noteq> as_parameter (ssl self)"
  shows "\<exists>e. py_generate_cookie_cb (generate_cookie_cb pf self) oid p buf n w =
           (0, buf, n, w\<lparr>log := log w @ [LogException ''Cookie generation failed'' e]\<rparr>)"
proof -
  from assms have "as_parameter \<lparr>as_parameter = oid, raw = p\<rparr> \<noteq> as_parameter (ssl self)"
    by simp
  from get_cookie_other_wrapper [OF this, of pf w]
  obtain e where "get_cookie pf self \<lparr>as_parameter = oid, raw = p\<rparr> w = (Inl e, w)"
    by blast
  then show ?thesis
    by (intro exI [of _ e]) (simp add: py_generate_cookie_cb_def generate_cookie_cb_def)
qed

section \<open>Properties\<close>

text \<open>
  C1. The claim has verification for the address \<open>a\<close> accept the cookie \<open>c\<close> exactly
  when \<open>c\<close> is HMAC(secret, serialize(\<open>a\<close>)), so that verifying the cookie generated for
  \<open>a\<close> succeeds. The code does not: the crypto library calls the callbacks through
  \<open>py_verify_cookie_cb\<close> and \<open>py_generate_cookie_cb\<close>, which wrap the pointer they
  receive in a new \<open>SSL\<close> object, and the assertion in \<open>_get_cookie\<close> compares the
  \<open>c_void_p\<close> objects of the two wrappers and not the pointers in them (\<open>raw\<close>). Here
  the listener, in the middle of \<open>listen\<close> for the peer \<open>('192.0.2.1', 4433)\<close>, holds
  the \<open>SSL\<close> pointer 30 in the object 2, and the library passes the pointer 30 (wrapped
  in the new object 3) with the 16 bytes of the digest of
  \<open>HMAC(_rnd_key, str(('192.0.2.1', 4433)))\<close>: whatever HMAC, \<open>str\<close> and key are, the
  verify callback returns 0, and the generate callback returns 0 and leaves the
  buffer and the length alone.
\<close>

theorem cookie_verification_fresh_wrapper:
  "\<forall>pf w buf n.
     raw (ssl (sample_listening (Addr2 ''192.0.2.1'' 4433))) = 30 \<and>
     as_parameter (ssl (sample_listening (Addr2 ''192.0.2.1'' 4433))) = 2 \<and>
     listening (sample_listening (Addr2 ''192.0.2.1'' 4433)) = Some True \<and>
     listening_peer_address (sample_listening (Addr2 ''192.0.2.1'' 4433)) =
       Some (Addr2 ''192.0.2.1'' 4433) \<and>
     py_verify_cookie_cb (verify_cookie_cb pf (sample_listening (Addr2 ''192.0.2.1'' 4433)))
       3 30 (digest (hmac_md5 pf (rnd_key pf) (py_str pf (Addr2 ''192.0.2.1'' 4433)))) 16 w =
       (0, w\<lparr>log := log w @ [LogDebug ''Verifying cookie: %s'',
                              LogDebug ''Cookie verification failed'']\<rparr>) \<and>
     py_generate_cookie_cb (generate_cookie_cb pf (sample_listening (Addr2 ''192.0.2.1'' 4433)))
       3 30 buf n w =
       (0, buf, n, w\<lparr>log := log w @ [LogException ''Cookie generation failed'' AssertionError]\<rparr>)"
  by (simp add: py_verify_cookie_cb_def verify_cookie_cb_def py_generate_cookie_cb_def
      generate_cookie_cb_def get_cookie_def sample_listening_def sample_listener_def Let_def)

text \<open>
  C2, amended. When \<open>SSL_do_handshake\<close> fails inside \<open>do_handshake\<close>: an error whose
  \<open>ssl_error\<close> is WANT_READ while the timeout of the inbound socket is a number other
  than 0 raises HandshakeTimeout; an error whose \<open>ssl_error\<close> is SYSCALL with result
  -1 raises PortUnreachable; every other error, WANT_READ on a socket with timeout 0
  (a non-blocking socket) or without timeout among them, propagates unchanged. The
  association is unchanged by a failure; on success \<open>handshake_done\<close> becomes true.
\<close>

theorem do_handshake_translation:
  assumes "check_nbio self w = (Inr (), w1)"
  shows "(\<forall>err w2. SSL_do_handshake (raw (ssl self)) w1 = (Inl err, w2) \<longrightarrow>
            (ssl_error err = SSL_ERROR_WANT_READ \<and>
             (\<exists>t. gettimeout (get_socket self True) = Some t \<and> t \<noteq> 0) \<longrightarrow>
               do_handshake self w =
                 (Inl (SSLError ERR_HANDSHAKE_TIMEOUT (Some err)), self, w2)) \<and>
            (ssl_error err = SSL_ERROR_SYSCALL \<and> result err = - 1 \<longrightarrow>
               do_handshake self w =
                 (Inl (SSLError ERR_PORT_UNREACHABLE (Some err)), self, w2)) \<and>
            (\<not> (ssl_error err = SSL_ERROR_WANT_READ \<and>
                (\<exists>t. gettimeout (get_socket self True) = Some t \<and> t \<noteq> 0)) \<and>
             \<not> (ssl_error err = SSL_ERROR_SYSCALL \<and> result err = - 1) \<longrightarrow>
               do_handshake self w = (Inl (OpenSSLError err), self, w2))) \<and>
         (\<forall>w2. SSL_do_handshake (raw (ssl self)) w1 = (Inr (), w2) \<longrightarrow>
            do_handshake self w = (Inr (), self\<lparr>handshake_done := True\<rparr>, w2))"
  using assms
  by (auto simp: do_handshake_def raise_ssl_error_def timeout_truthy_def
        SSL_ERROR_WANT_READ_def SSL_ERROR_SYSCALL_def split: option.splits)

theorem do_handshake_translation_witness:
  "fst (do_handshake (sample_client (Some 5))
          (sample_world (failing (- 1) SSL_ERROR_WANT_READ) (\<lambda>k. Inr NoPeer))) =
     Inl (SSLError ERR_HANDSHAKE_TIMEOUT
            (Some \<lparr>ssl_error = SSL_ERROR_WANT_READ, errqueue = [], result = - 1\<rparr>)) \<and>
   fst (do_handshake (sample_client (Some 5))
          (sample_world (failing (- 1) SSL_ERROR_SYSCALL) (\<lambda>k. Inr NoPeer))) =
     Inl (SSLError ERR_PORT_UNREACHABLE
            (Some \<lparr>ssl_error = SSL_ERROR_SYSCALL, errqueue = [], result = - 1\<rparr>)) \<and>
   handshake_done (fst (snd (do_handshake (sample_client (Some 5))
          (sample_world (\<lambda>k. sample_result) (\<lambda>k. Inr NoPeer)))))"
proof -
  let ?s = "sample_client (Some 5)"
  have nb: "check_nbio ?s (sample_world f d) = (Inr (), snd (check_nbio ?s (sample_world f d)))"
    for f d
    by (simp add: check_nbio_def sample_client_def)
  have t: "\<exists>t. gettimeout (get_socket ?s True) = Some t \<and> t \<noteq> 0"
    by (simp add: get_socket_def sample_client_def sample_socket_def)
  have hs: "SSL_do_handshake (raw (ssl ?s))
              (snd (check_nbio ?s (sample_world (failing (- 1) e) d))) =
            (Inl \<lparr>ssl_error = e, errqueue = [], result = - 1\<rparr>,
             snd (SSL_do_handshake (raw (ssl ?s))
                    (snd (check_nbio ?s (sample_world (failing (- 1) e) d)))))" for e d
    by (simp add: SSL_do_handshake_def lib_call_def errcheck_ord_def openssl_raise_ssl_error_def
        check_nbio_def BIO_set_nbio_def sample_client_def sample_world_def failing_def
        sample_result_def)
  have ok: "SSL_do_handshake (raw (ssl ?s))
              (snd (check_nbio ?s (sample_world (\<lambda>k. sample_result) d))) =
            (Inr (),
             snd (SSL_do_handshake (raw (ssl ?s))
                    (snd (check_nbio ?s (sample_world (\<lambda>k. sample_result) d)))))" for d
    by (simp add: SSL_do_handshake_def lib_call_def errcheck_ord_def
        check_nbio_def BIO_set_nbio_def sample_client_def sample_world_def sample_result_def)
  from do_handshake_translation [OF nb [of "failing (- 1) SSL_ERROR_WANT_READ" "\<lambda>k. Inr NoPeer"]]
    hs [of SSL_ERROR_WANT_READ "\<lambda>k. Inr NoPeer"] t
  have 1: "fst (do_handshake ?s (sample_world (failing (- 1) SSL_ERROR_WANT_READ) (\<lambda>k. Inr NoPeer))) =
     Inl (SSLError ERR_HANDSHAKE_TIMEOUT
            (Some \<lparr>ssl_error = SSL_ERROR_WANT_READ, errqueue = [], result = - 1\<rparr>))"
    by simp
  from do_handshake_translation [OF nb [of "failing (- 1) SSL_ERROR_SYSCALL" "\<lambda>k. Inr NoPeer"]]
    hs [of SSL_ERROR_SYSCALL "\<lambda>k. Inr NoPeer"]
  have 2: "fst (do_handshake ?s (sample_world (failing (- 1) SSL_ERROR_SYSCALL) (\<lambda>k. Inr NoPeer))) =
     Inl (SSLError ERR_PORT_UNREACHABLE
            (Some \<lparr>ssl_error = SSL_ERROR_SYSCALL, errqueue = [], result = - 1\<rparr>))"
    by simp
  from do_handshake_translation [OF nb [of "\<lambda>k. sample_result" "\<lambda>k. Inr NoPeer"]]
    ok [of "\<lambda>k. Inr NoPeer"]
  have 3: "handshake_done (fst (snd (do_handshake ?s
          (sample_world (\<lambda>k. sample_result) (\<lambda>k. Inr NoPeer)))))"
    by simp
  from 1 2 3 show ?thesis by simp
qed

text \<open>
  C2 as stated fails for the finite timeout 0: on a non-blocking socket WANT_READ is not
  turned into HandshakeTimeout but propagates as the crypto error it is.
\<close>

theorem do_handshake_translation_counterexample:
  "fst (do_handshake (sample_client (Some 0))
          (sample_world (failing (- 1) SSL_ERROR_WANT_READ) (\<lambda>k. Inr NoPeer))) =
     Inl (OpenSSLError \<lparr>ssl_error = SSL_ERROR_WANT_READ, errqueue = [], result = - 1\<rparr>) \<and>
   gettimeout (get_socket (sample_client (Some 0)) True) = Some 0"
  by (simp add: do_handshake_def check_nbio_def BIO_set_nbio_def SSL_do_handshake_def
      lib_call_def errcheck_ord_def openssl_raise_ssl_error_def get_socket_def
      timeout_truthy_def sample_client_def sample_socket_def sample_world_def failing_def
      sample_result_def SSL_ERROR_WANT_READ_def SSL_ERROR_SYSCALL_def)

text \<open>
  C3. For every invocation of \<open>listen\<close> in which the DTLS listen primitive is called (the
  last call of the invocation is \<open>SSL_ctrl\<close> with \<open>DTLS_CTRL_LISTEN\<close>) and fails (its
  return value is not positive): \<open>listen\<close> returns \<open>None\<close> without raising when the
  failure is WANT_READ, and returns \<open>None\<close> without raising when the error queue of the
  failure reports a cookie mismatch, that is when the first entry of the queue is
  \<open>ERR_COOKIE_MISMATCH\<close>; every other failure of the primitive is raised to the caller
  unchanged.
\<close>

theorem listen_primitive_failure:
  assumes run: "listen pf self w = (out, s', w')"
    and called: "calls w' = calls w @ pre @ [Call_SSL_ctrl h DTLS_CTRL_LISTEN 0]"
    and failed: "ret (lib w (length (calls w @ pre))) \<le> 0"
  shows "let r = lib w (length (calls w @ pre));
             err = openssl_raise_ssl_error (ret r) (Some h) r
         in (ssl_error err = SSL_ERROR_WANT_READ \<longrightarrow> out = Inr None) \<and>
            (errqueue err \<noteq> [] \<and> fst (hd (errqueue err)) = ERR_COOKIE_MISMATCH \<longrightarrow>
               out = Inr None) \<and>
            (ssl_error err \<noteq> SSL_ERROR_WANT_READ \<and>
             \<not> (errqueue err \<noteq> [] \<and> fst (hd (errqueue err)) = ERR_COOKIE_MISMATCH) \<longrightarrow>
               out = Inl (OpenSSLError err))"
proof -
  from listen_outcome_listen [OF run] consider
    (dtls) self1 w2 pre2 v where "ssl self1 = ssl self" "lib w2 = lib w"
      "calls w2 = calls w @ pre2" "no_ssl_ctrl pre2" "listen_dtls pf self1 v w2 = (out, s', w')"
    | (early) new where "calls w' = calls w @ new" "no_ssl_ctrl new"
    unfolding listen_outcome_def by blast
  then show ?thesis
  proof cases
    case early
    with called have "no_ssl_ctrl (pre @ [Call_SSL_ctrl h DTLS_CTRL_LISTEN 0])" by simp
    then show ?thesis by simp
  next
    case dtls
    from listen_dtls_calls [OF dtls(5)] dtls(1,3) called
    have eq: "pre2 = pre" "h = raw (ssl self1)" by simp_all
    have "ret (lib w2 (length (calls w2))) \<le> 0" using failed dtls(2,3) eq by simp
    from listen_dtls_failure [OF this, of pf self1 v] dtls(5) dtls(2,3) eq
    show ?thesis by (simp add: Let_def)
  qed
qed

theorem listen_primitive_failure_witness:
  "\<forall>pf. fst (listen pf sample_listener
               (sample_world (failing (- 1) SSL_ERROR_WANT_READ) (\<lambda>k. Inr PeerOther))) = Inr None"
proof
  fix pf
  let ?w = "sample_world (failing (- 1) SSL_ERROR_WANT_READ) (\<lambda>k. Inr PeerOther)"
  let ?pre = "[Call_demux_service 7, Call_BIO_ctrl 10 BIO_C_SET_NBIO 0 None,
               Call_BIO_ctrl 11 BIO_C_SET_NBIO 0 None]"
  have run: "listen pf sample_listener ?w =
      (fst (listen pf sample_listener ?w), fst (snd (listen pf sample_listener ?w)),
       snd (snd (listen pf sample_listener ?w)))"
    by simp
  have called: "calls (snd (snd (listen pf sample_listener ?w))) =
      calls ?w @ ?pre @ [Call_SSL_ctrl 30 DTLS_CTRL_LISTEN 0]"
    by (simp add: listen_def listen_peer_def listen_dtls_def demux_service_def check_nbio_def
        BIO_set_nbio_def lib_call_def DTLSv1_listen_def errcheck_ord_def
        openssl_raise_ssl_error_def sample_listener_def sample_socket_def sample_world_def
        failing_def sample_result_def SSL_ERROR_WANT_READ_def)
  have failed: "ret (lib ?w (length (calls ?w @ ?pre))) \<le> 0"
    by (simp add: sample_world_def failing_def sample_result_def)
  from listen_primitive_failure [OF run called failed]
  show "fst (listen pf sample_listener ?w) = Inr None"
    by (simp add: Let_def openssl_raise_ssl_error_def sample_world_def failing_def
        sample_result_def)
qed

text \<open>
  C4, as amended. Constructing a connection with \<open>cert_reqs\<close> other than none (required
  is 2) and no \<open>ca_certs\<close> fails with NoTrustAnchors provided the two checks that come
  first pass: key file and certificate file are given together or not at all, and a
  server has a key file.
\<close>

theorem init_no_trust_anchors:
  assumes "truthy (arg_keyfile a) = truthy (arg_certfile a)"
    and "arg_server_side a \<longrightarrow> truthy (arg_keyfile a)"
    and "arg_cert_reqs a \<noteq> CERT_NONE"
    and "\<not> truthy (arg_ca_certs a)"
  shows "init_check_args a = Inl (SSLError ERR_NO_CERTS None)"
  using assms by (auto simp add: init_check_args_def raise_ssl_error_def)

theorem init_no_trust_anchors_witness:
  "init_check_args
     \<lparr>arg_keyfile = Some ''key.pem'', arg_certfile = Some ''cert.pem'',
      arg_server_side = True, arg_cert_reqs = CERT_REQUIRED,
      arg_ssl_version = PROTOCOL_DTLSv1, arg_ca_certs = None,
      arg_do_handshake_on_connect = True, arg_suppress_ragged_eofs = True,
      arg_ciphers = None\<rparr> = Inl (SSLError ERR_NO_CERTS None)"
  by (rule init_no_trust_anchors)
     (simp_all add: truthy_def CERT_REQUIRED_def CERT_NONE_def)

text \<open>
  C4 as stated fails: with a key file and no certificate file the first check raises,
  and the error is not NoTrustAnchors although \<open>cert_reqs\<close> is required and there are
  no \<open>ca_certs\<close>.
\<close>

theorem init_no_trust_anchors_counterexample:
  "init_check_args
     \<lparr>arg_keyfile = Some ''key.pem'', arg_certfile = None,
      arg_server_side = False, arg_cert_reqs = CERT_REQUIRED,
      arg_ssl_version = PROTOCOL_DTLSv1, arg_ca_certs = None,
      arg_do_handshake_on_connect = True, arg_suppress_ragged_eofs = True,
      arg_ciphers = None\<rparr> = Inl (NameError ''ERR_BOTH_KEY_CERT_FILES'')
   \<and> Inl (NameError ''ERR_BOTH_KEY_CERT_FILES'') \<noteq>
       (Inl (SSLError ERR_NO_CERTS None) :: exn + init_args)"
  by (simp add: init_check_args_def truthy_def)

text \<open>
  C5. In \<open>shutdown\<close> on an association that is not a listener, once \<open>_check_nbio\<close> has
  run: if the first call of \<open>SSL_shutdown\<close> fails with result 0, the next call the
  program makes is \<open>SSL_shutdown\<close> again, so nothing, and no \<open>SSL_set_read_ahead\<close> in
  particular, comes between the two (at most the \<open>BIO_dgram_get_peer\<close> of the return
  value follows); if the first call fails with a negative result, the error is raised
  to the caller, the association is unchanged and no second call is made.
\<close>

theorem shutdown_close_notify:
  assumes nl: "listening self = None"
    and nb: "check_nbio self w = (Inr (), w1)"
    and run: "shutdown pf self w = (out, s', w')"
  shows "let h = raw (ssl self); r1 = lib w (length (calls w1));
             err1 = openssl_raise_ssl_error (ret r1) (Some h) r1
         in (ret r1 = 0 \<longrightarrow>
               (\<exists>rest. calls w' = calls w1 @ [Call_SSL_shutdown h, Call_SSL_shutdown h] @ rest \<and>
                  (\<forall>c\<in>set rest. c = Call_BIO_ctrl (wbio self) BIO_CTRL_DGRAM_GET_PEER 0
                                        (Some sockaddr_u_new)))) \<and>
            (ret r1 < 0 \<longrightarrow>
               out = Inl (OpenSSLError err1) \<and> s' = self \<and>
               calls w' = calls w1 @ [Call_SSL_shutdown h])"
proof -
  from check_nbio_world [OF nb] have lw: "lib w1 = lib w" by simp
  let ?h = "raw (ssl self)"
  let ?w2 = "w1\<lparr>calls := calls w1 @ [Call_SSL_shutdown ?h]\<rparr>"
  let ?w3 = "?w2\<lparr>calls := calls ?w2 @ [Call_SSL_shutdown ?h]\<rparr>"
  let ?r1 = "lib w (length (calls w1))"
  have neg: "out = Inl (OpenSSLError (openssl_raise_ssl_error (ret ?r1) (Some ?h) ?r1)) \<and>
             s' = self \<and> calls w' = calls w1 @ [Call_SSL_shutdown ?h]"
    if "ret ?r1 < 0"
    using that run nl nb lw
    by (auto simp add: shutdown_def SSL_shutdown_eq errcheck_ord_def
        result_openssl_raise_ssl_error)
  have zero: "\<exists>rest. calls w' = calls w1 @ [Call_SSL_shutdown ?h, Call_SSL_shutdown ?h] @ rest \<and>
                (\<forall>c\<in>set rest. c = Call_BIO_ctrl (wbio self) BIO_CTRL_DGRAM_GET_PEER 0
                                      (Some sockaddr_u_new))"
    if z: "ret ?r1 = 0"
  proof -
    from z run nl nb lw
    consider "w' = ?w3" | r4 where "BIO_dgram_get_peer pf (wbio self) ?w3 = (r4, w')"
      by (auto simp add: shutdown_def SSL_shutdown_eq errcheck_ord_def
          result_openssl_raise_ssl_error split: sum.splits option.splits prod.splits if_splits)
    then show ?thesis
    proof cases
      case 1
      then have "calls w' = calls w1 @ [Call_SSL_shutdown ?h, Call_SSL_shutdown ?h] @ []"
        by simp
      then show ?thesis by (intro exI [of _ "[]"]) simp
    next
      case 2
      from BIO_dgram_get_peer_calls [OF 2] show ?thesis
        by (intro exI [of _ "[Call_BIO_ctrl (wbio self) BIO_CTRL_DGRAM_GET_PEER 0
                               (Some sockaddr_u_new)]"]) simp
    qed
  qed
  show ?thesis using neg zero by (simp add: Let_def)
qed

theorem shutdown_close_notify_witness:
  "\<forall>pf. (\<exists>rest. calls (snd (snd (shutdown pf (sample_client None)
                     (sample_world (answering_at 1 0) (\<lambda>k. Inr NoPeer))))) =
               [Call_BIO_ctrl 10 BIO_C_SET_NBIO 0 None, Call_SSL_shutdown 30,
                Call_SSL_shutdown 30] @ rest) \<and>
        fst (shutdown pf (sample_client None)
               (sample_world (answering_at 1 (- 1)) (\<lambda>k. Inr NoPeer))) =
          Inl (OpenSSLError \<lparr>ssl_error = 0, errqueue = [], result = - 1\<rparr>)"
proof
  fix pf
  let ?s = "sample_client None"
  let ?w = "\<lambda>r. sample_world (answering_at 1 r) (\<lambda>k. Inr NoPeer)"
  have nl: "listening ?s = None" by (simp add: sample_client_def)
  have nb: "check_nbio ?s (?w r) =
      (Inr (), (?w r)\<lparr>calls := [Call_BIO_ctrl 10 BIO_C_SET_NBIO 0 None]\<rparr>)" for r
    by (simp add: check_nbio_def BIO_set_nbio_def lib_call_def sample_client_def
        sample_socket_def sample_world_def)
  have run: "shutdown pf ?s (?w r) =
      (fst (shutdown pf ?s (?w r)), fst (snd (shutdown pf ?s (?w r))),
       snd (snd (shutdown pf ?s (?w r))))" for r
    by simp
  from shutdown_close_notify [OF nl nb run, of 0]
  have 1: "\<exists>rest. calls (snd (snd (shutdown pf ?s (?w 0)))) =
               [Call_BIO_ctrl 10 BIO_C_SET_NBIO 0 None, Call_SSL_shutdown 30,
                Call_SSL_shutdown 30] @ rest"
    by (auto simp add: Let_def sample_world_def answering_at_def sample_result_def
        sample_client_def)
  from shutdown_close_notify [OF nl nb run, of "- 1"]
  have 2: "fst (shutdown pf ?s (?w (- 1))) =
          Inl (OpenSSLError \<lparr>ssl_error = 0, errqueue = [], result = - 1\<rparr>)"
    by (simp add: Let_def sample_world_def answering_at_def sample_result_def
        sample_client_def openssl_raise_ssl_error_def)
  from 1 2 show "(\<exists>rest. calls (snd (snd (shutdown pf ?s (?w 0)))) =
               [Call_BIO_ctrl 10 BIO_C_SET_NBIO 0 None, Call_SSL_shutdown 30,
                Call_SSL_shutdown 30] @ rest) \<and>
        fst (shutdown pf ?s (?w (- 1))) =
          Inl (OpenSSLError \<lparr>ssl_error = 0, errqueue = [], result = - 1\<rparr>)"
    by simp
qed

text \<open>
  C6. For every association that has the attribute \<open>_listening\<close> (a server-side
  listener: only \<open>_init_server\<close> and \<open>listen\<close> set it), whatever state it is in,
  \<open>shutdown\<close> returns \<open>None\<close> without raising, leaves every field of the association as
  it was and makes no call into the crypto library or the demux.
\<close>

theorem shutdown_listener_noop:
  assumes "listening self \<noteq> None"
  shows "shutdown pf self w = (Inr ShutNone, self, w)"
  using assms by (simp add: shutdown_def)

theorem shutdown_listener_noop_witness:
  "\<forall>pf w. shutdown pf sample_listener w = (Inr ShutNone, sample_listener, w)"
  by (intro allI, rule shutdown_listener_noop) (simp add: sample_listener_def)

text \<open>
  C7. \<open>getpeercert\<close> returns \<open>None\<close> when \<open>SSL_get_peer_certificate\<close> returns no
  certificate. When it returns one: with \<open>binary_form\<close> true the result is the DER
  bytes that \<open>i2d_X509\<close> gives for the certificate (or what \<open>i2d_X509\<close> raises); with
  \<open>binary_form\<close> false the result is the empty dictionary exactly when the certificate
  was not validated, that is when \<open>cert_reqs\<close> is \<open>CERT_NONE\<close>, and otherwise the
  dictionary \<open>decode_cert\<close> makes of the certificate.
\<close>

theorem getpeercert_result:
  "let r = lib w (length (calls w));
       w1 = w\<lparr>calls := calls w @ [Call_SSL_get_peer_certificate (raw (ssl self))]\<rparr>;
       x = nat (ret r)
   in (ret r = 0 \<longrightarrow> getpeercert self binary_form w = (Inr CertNone, w1)) \<and>
      (ret r \<noteq> 0 \<longrightarrow>
         getpeercert self True w =
           (case i2d_X509 x w1 of
              (Inl e, w2) \<Rightarrow> (Inl e, w2)
            | (Inr der, w2) \<Rightarrow> (Inr (CertDER der), w2)) \<and>
         (fst (getpeercert self False w) = Inr (CertDict []) \<longleftrightarrow> cert_reqs self = CERT_NONE) \<and>
         (cert_reqs self \<noteq> CERT_NONE \<longrightarrow>
            getpeercert self False w =
              (Inr (CertDict (fst (decode_cert x w1))), snd (decode_cert x w1))))"
  by (auto simp: getpeercert_def SSL_get_peer_certificate_def lib_call_def errcheck_FuncParam_def
      decode_cert_def Let_def split: prod.splits sum.splits)

theorem getpeercert_result_witness:
  "fst (getpeercert (sample_client None) True
          (sample_world (failing 0 0) (\<lambda>k. Inr NoPeer))) = Inr CertNone \<and>
   fst (getpeercert (sample_client None) False
          (sample_world (\<lambda>k. sample_result\<lparr>ret := 77\<rparr>) (\<lambda>k. Inr NoPeer))) = Inr (CertDict []) \<and>
   fst (getpeercert ((sample_client None)\<lparr>cert_reqs := CERT_REQUIRED\<rparr>) False
          (sample_world (\<lambda>k. sample_result\<lparr>ret := 77\<rparr>) (\<lambda>k. Inr NoPeer))) =
     Inr (CertDict [(''subject'', CertSubject []), (''notAfter'', CertText [])])"
proof -
  let ?w0 = "sample_world (failing 0 0) (\<lambda>k. Inr NoPeer)"
  let ?w1 = "sample_world (\<lambda>k. sample_result\<lparr>ret := 77\<rparr>) (\<lambda>k. Inr NoPeer)"
  from getpeercert_result [of ?w0 "sample_client None" True]
  have 1: "fst (getpeercert (sample_client None) True ?w0) = Inr CertNone"
    by (simp add: Let_def sample_world_def failing_def sample_result_def)
  from getpeercert_result [of ?w1 "sample_client None" False]
  have 2: "fst (getpeercert (sample_client None) False ?w1) = Inr (CertDict [])"
    by (simp add: Let_def sample_world_def sample_result_def sample_client_def)
  from getpeercert_result [of ?w1 "(sample_client None)\<lparr>cert_reqs := CERT_REQUIRED\<rparr>" False]
  have 3: "fst (getpeercert ((sample_client None)\<lparr>cert_reqs := CERT_REQUIRED\<rparr>) False ?w1) =
     Inr (CertDict [(''subject'', CertSubject []), (''notAfter'', CertText [])])"
    by (simp add: Let_def sample_world_def sample_result_def sample_client_def
        CERT_REQUIRED_def CERT_NONE_def decode_cert_def lib_call_def)
  from 1 2 3 show ?thesis by simp
qed

text \<open>
  C8, amended. For every 2-tuple (IPv4 host, port) and every 4-tuple (IPv6 host, port,
  flowinfo, scope id) whose host is written in the presentation form of the platform
  (the text that \<open>inet_ntop\<close> prints for the address that \<open>inet_pton\<close> reads from it),
  whose port is below \<open>2^16\<close> and whose flowinfo and scope id are below \<open>2^32\<close>,
  encoding the tuple and decoding the result gives the tuple back, on every platform
  whose two address families are distinct and fit a \<open>c_short\<close>.
\<close>

theorem sockaddr_roundtrip:
  assumes fam: "families_fit pf" and host: "presentation_form pf a" and rng: "fields_in_range a"
  shows "addr_roundtrip pf a = Inr a"
proof (cases a)
  case (Addr2 h p)
  from host Addr2 obtain a4 where
    pton: "inet_pton pf (AF_INET pf) h = Inr [a4]" and ntop: "inet_ntop pf (AF_INET pf) [a4] = Inr h"
    by (auto simp: presentation_form_def addr_family_def addr_host_def length_Suc_conv
        split: sum.splits)
  from rng Addr2 have p: "0 \<le> p" "p < 65536" by (simp_all add: fields_in_range_def)
  from htons_ok [OF p] obtain q where q: "htons pf p = Inr q" by blast
  have rt: "ntohs pf (uint (word_of_int q :: 16 word)) = Inr p"
    by (rule ntohs_htons [OF p q])
  from fam have f4: "sint (word_of_int (AF_INET pf) :: 16 word) = AF_INET pf"
    and ne: "AF_INET pf \<noteq> AF_INET6 pf"
    by (simp_all add: families_fit_def sint16_of_int)
  show ?thesis
    by (simp add: Addr2 addr_roundtrip_def sockaddr_u_from_addr_tuple_def
        addr_tuple_from_sockaddr_u_def sockaddr_u_new_def pton ntop q rt f4 ne)
next
  case (Addr4 h p f s)
  from host Addr4 obtain packed where
    pton: "inet_pton pf (AF_INET6 pf) h = Inr packed" and len: "length packed = 4"
    and ntop: "inet_ntop pf (AF_INET6 pf) packed = Inr h"
    by (auto simp: presentation_form_def addr_family_def addr_host_def split: sum.splits)
  from rng Addr4 have p: "0 \<le> p" "p < 65536" and f: "0 \<le> f" "f < 2 ^ 32"
    and s: "0 \<le> s" "s < 2 ^ 32"
    by (simp_all add: fields_in_range_def)
  from htons_ok [OF p] obtain q where q: "htons pf p = Inr q" by blast
  from htonl_ok [OF f] obtain g where g: "htonl pf f = Inr g" by blast
  from htonl_ok [OF s] obtain t where t: "htonl pf s = Inr t" by blast
  have rt: "ntohs pf (uint (word_of_int q :: 16 word)) = Inr p"
    "ntohl pf (uint (word_of_int g :: 32 word)) = Inr f"
    "ntohl pf (uint (word_of_int t :: 32 word)) = Inr s"
    by (rule ntohs_htons [OF p q], rule ntohl_htonl [OF f g], rule ntohl_htonl [OF s t])
  from fam have f6: "sint (word_of_int (AF_INET6 pf) :: 16 word) = AF_INET6 pf"
    by (simp add: families_fit_def sint16_of_int)
  show ?thesis
    by (simp add: Addr4 addr_roundtrip_def sockaddr_u_from_addr_tuple_def
        addr_tuple_from_sockaddr_u_def sockaddr_u_new_def ctypes_assign_def
        pton len ntop q g t rt f6)
qed

theorem sockaddr_roundtrip_witness:
  "addr_roundtrip linux_sample_env (Addr2 ''192.0.2.1'' 4433) = Inr (Addr2 ''192.0.2.1'' 4433) \<and>
   addr_roundtrip linux_sample_env (Addr4 ''::1'' 4433 7 2) = Inr (Addr4 ''::1'' 4433 7 2)"
proof -
  have fam: "families_fit linux_sample_env" by code_simp
  have h4: "presentation_form linux_sample_env (Addr2 ''192.0.2.1'' 4433)" by code_simp
  have r4: "fields_in_range (Addr2 ''192.0.2.1'' 4433)" by code_simp
  have h6: "presentation_form linux_sample_env (Addr4 ''::1'' 4433 7 2)" by code_simp
  have r6: "fields_in_range (Addr4 ''::1'' 4433 7 2)" by code_simp
  from sockaddr_roundtrip [OF fam h4 r4] sockaddr_roundtrip [OF fam h6 r6]
  show ?thesis by simp
qed

text \<open>
  C8 as stated fails for an IPv6 host that is not in presentation form: the loopback
  address written with all eight groups comes back as \<open>::1\<close>.
\<close>

theorem sockaddr_roundtrip_counterexample:
  "addr_roundtrip linux_sample_env (Addr4 ''0:0:0:0:0:0:0:1'' 4433 0 0) =
     Inr (Addr4 ''::1'' 4433 0 0)"
  by code_simp

text \<open>
  C9. Whatever callbacks are registered: when the generate callback raises, the
  trampoline returns 0 (the failure value for the crypto library) and not the exception,
  leaves the library's buffer and length alone and logs the exception; when it returns
  a cookie, the trampoline returns 1, the cookie is at the start of the buffer and its
  length is stored. When the verify callback raises, the trampoline returns 0 and logs
  the failure; when it returns, the trampoline returns 1.
\<close>

theorem cookie_callbacks_return:
  "(\<forall>e w1. generate \<lparr>as_parameter = oid, raw = p\<rparr> w = (Inl e, w1) \<longrightarrow>
      py_generate_cookie_cb generate oid p buf n w =
        (0, buf, n, w1\<lparr>log := log w1 @ [LogException ''Cookie generation failed'' e]\<rparr>)) \<and>
   (\<forall>c w1. generate \<lparr>as_parameter = oid, raw = p\<rparr> w = (Inr c, w1) \<longrightarrow>
      (case py_generate_cookie_cb generate oid p buf n w of
         (rv, buf', n', w') \<Rightarrow>
           rv = 1 \<and> take (length c) buf' = c \<and> n' = length c \<and>
           drop (length c) buf' = drop (length c) buf)) \<and>
   (\<forall>e w1. verify \<lparr>as_parameter = oid, raw = p\<rparr> (take n buf)
             (w\<lparr>log := log w @ [LogDebug ''Verifying cookie: %s'']\<rparr>) = (Inl e, w1) \<longrightarrow>
      py_verify_cookie_cb verify oid p buf n w =
        (0, w1\<lparr>log := log w1 @ [LogDebug ''Cookie verification failed'']\<rparr>)) \<and>
   (\<forall>w1. verify \<lparr>as_parameter = oid, raw = p\<rparr> (take n buf)
           (w\<lparr>log := log w @ [LogDebug ''Verifying cookie: %s'']\<rparr>) = (Inr (), w1) \<longrightarrow>
      py_verify_cookie_cb verify oid p buf n w = (1, w1))"
  by (auto simp: py_generate_cookie_cb_def py_verify_cookie_cb_def Let_def)

theorem cookie_callbacks_return_witness:
  "\<forall>w. py_generate_cookie_cb (\<lambda>x v. (Inl (PyException ''boom''), v)) 5 30 [1, 2, 3] 0 w =
         (0, [1, 2, 3], 0, w\<lparr>log := log w @ [LogException ''Cookie generation failed''
                                               (PyException ''boom'')]\<rparr>) \<and>
       fst (py_generate_cookie_cb (\<lambda>x v. (Inr [7, 8], v)) 5 30 [1, 2, 3] 0 w) = 1 \<and>
       fst (py_verify_cookie_cb (\<lambda>x c v. (Inl (PyException ''DTLS cookie mismatch''), v))
              5 30 [1, 2, 3] 3 w) = 0 \<and>
       fst (py_verify_cookie_cb (\<lambda>x c v. (Inr (), v)) 5 30 [1, 2, 3] 3 w) = 1"
proof
  fix w
  from cookie_callbacks_return
    [of "\<lambda>x v. (Inl (PyException ''boom''), v)" 5 30 w "[1, 2, 3]" 0 "\<lambda>x c v. (Inr (), v)"]
  have 1: "py_generate_cookie_cb (\<lambda>x v. (Inl (PyException ''boom''), v)) 5 30 [1, 2, 3] 0 w =
         (0, [1, 2, 3], 0, w\<lparr>log := log w @ [LogException ''Cookie generation failed''
                                               (PyException ''boom'')]\<rparr>)"
    by simp
  from cookie_callbacks_return
    [of "\<lambda>x v. (Inr [7, 8], v)" 5 30 w "[1, 2, 3]" 3
        "\<lambda>x c v. (Inl (PyException ''DTLS cookie mismatch''), v)"]
  have 3: "fst (py_verify_cookie_cb (\<lambda>x c v. (Inl (PyException ''DTLS cookie mismatch''), v))
              5 30 [1, 2, 3] 3 w) = 0"
    by simp
  from cookie_callbacks_return
    [of "\<lambda>x v. (Inr [7, 8], v)" 5 30 w "[1, 2, 3]" 0 "\<lambda>x c v. (Inr (), v)"]
  have 2: "fst (py_generate_cookie_cb (\<lambda>x v. (Inr [7, 8], v)) 5 30 [1, 2, 3] 0 w) = 1"
    by (simp split: prod.splits)
  from cookie_callbacks_return
    [of "\<lambda>x v. (Inr [7, 8], v)" 5 30 w "[1, 2, 3]" 3 "\<lambda>x c v. (Inr (), v)"]
  have 4: "fst (py_verify_cookie_cb (\<lambda>x c v. (Inr (), v)) 5 30 [1, 2, 3] 3 w) = 1"
    by simp
  from 1 2 3 4
  show "py_generate_cookie_cb (\<lambda>x v. (Inl (PyException ''boom''), v)) 5 30 [1, 2, 3] 0 w =
         (0, [1, 2, 3], 0, w\<lparr>log := log w @ [LogException ''Cookie generation failed''
                                               (PyException ''boom'')]\<rparr>) \<and>
       fst (py_generate_cookie_cb (\<lambda>x v. (Inr [7, 8], v)) 5 30 [1, 2, 3] 0 w) = 1 \<and>
       fst (py_verify_cookie_cb (\<lambda>x c v. (Inl (PyException ''DTLS cookie mismatch''), v))
              5 30 [1, 2, 3] 3 w) = 0 \<and>
       fst (py_verify_cookie_cb (\<lambda>x c v. (Inr (), v)) 5 30 [1, 2, 3] 3 w) = 1"
    by simp
qed

text \<open>
  C10. \<open>listen\<close> clears the pending peer address first: what \<open>listen\<close> returns and the
  state it leaves do not depend on the pending peer it was called with, so a peer that
  an earlier \<open>listen\<close> returned and \<open>accept\<close> has not taken is discarded. After every
  call, also one that raises what the demux raised, the pending peer is exactly the
  peer this call returned, and \<open>None\<close> when it returned none or raised. The pending
  peer is one field, so there is at most one at any time.
\<close>

theorem listen_clears_pending:
  "listen pf (self\<lparr>pending_peer_address := p\<rparr>) w =
     listen pf (self\<lparr>pending_peer_address := None\<rparr>) w \<and>
   (case listen pf self w of
      (out, s', w') \<Rightarrow>
        pending_peer_address s' = (case out of Inl e \<Rightarrow> None | Inr v \<Rightarrow> v))"
proof
  show "listen pf (self\<lparr>pending_peer_address := p\<rparr>) w =
          listen pf (self\<lparr>pending_peer_address := None\<rparr>) w"
    by (simp add: listen_def)
next
  obtain out s' w' where run: "listen pf self w = (out, s', w')"
    by (cases "listen pf self w") auto
  from listen_outcome_listen [OF run]
  have "pending_peer_address s' = (case out of Inl e \<Rightarrow> None | Inr v \<Rightarrow> v)"
    unfolding listen_outcome_def
    by (auto dest: listen_dtls_pending split: sum.splits)
  with run show "case listen pf self w of
      (out, s', w') \<Rightarrow>
        pending_peer_address s' = (case out of Inl e \<Rightarrow> None | Inr v \<Rightarrow> v)"
    by simp
qed

theorem listen_clears_pending_witness:
  "\<forall>pf. pending_peer_address (fst (snd (listen pf
            (sample_listener\<lparr>pending_peer_address := Some (Addr2 ''192.0.2.1'' 4433)\<rparr>)
            (sample_world (\<lambda>k. sample_result) (\<lambda>k. Inr NoPeer))))) = None"
proof
  fix pf
  let ?s = "sample_listener\<lparr>pending_peer_address := Some (Addr2 ''192.0.2.1'' 4433)\<rparr>"
  let ?w = "sample_world (\<lambda>k. sample_result) (\<lambda>k. Inr NoPeer)"
  have out: "fst (listen pf ?s ?w) = Inr None"
    by (simp add: listen_def demux_service_def sample_listener_def sample_world_def)
  obtain o1 s1 w1 where run: "listen pf ?s ?w = (o1, s1, w1)"
    by (cases "listen pf ?s ?w") auto
  from listen_clears_pending [where pf = pf and self = ?s and w = ?w and p = None] run
  have "pending_peer_address s1 = (case o1 of Inl e \<Rightarrow> None | Inr v \<Rightarrow> v)"
    by simp
  moreover from out run have "o1 = Inr None" by simp
  ultimately show "pending_peer_address (fst (snd (listen pf ?s ?w))) = None"
    using run by simp
qed

end
